theory Spec2Isabelle
  imports Complex_Main
begin

section \<open>Time strings and the time calculator (models/DailyTimesheet.js)\<close>

text \<open>
  JavaScript numbers are modelled as rationals: every quantity below is a sum, difference,
  product or quotient of integers and user-supplied rates, and rounding of the binary
  floating-point representation is not modelled.
\<close>

definition is_digit :: "char \<Rightarrow> bool" where
  "is_digit c = (c \<in> set ''0123456789'')"

definition digit_val :: "char \<Rightarrow> nat" where
  "digit_val c = of_char c - 48"

text \<open>
  \<open>Number(s)\<close> on the strings that \<open>parseTime\<close> can meet: the empty string is 0, a
  string of decimal digits is the number it denotes. \<open>None\<close> stands for every other
  string (\<open>NaN\<close>, or a literal form with sign, fraction, exponent, radix prefix or white
  space, none of which passes the time validator).
\<close>

definition Number :: "string \<Rightarrow> rat option" where
  "Number s = (if list_all is_digit s
               then Some (of_nat (foldl (\<lambda>acc c. acc * 10 + digit_val c) 0 s))
               else None)"

text \<open>\<open>timeString.split(':')\<close>\<close>

fun split_colon :: "string \<Rightarrow> string list" where
  "split_colon [] = [] # []"
| "split_colon (c # cs) =
     (if c = CHR '':'' then [] # split_colon cs
      else (case split_colon cs of
              [] \<Rightarrow> [c] # []
            | w # ws \<Rightarrow> (c # w) # ws))"

text \<open>
  \<open>const [hours, minutes] = timeString.split(':').map(Number); return hours * 60 + minutes;\<close>
  A missing second component is \<open>undefined\<close>, and the sum is then \<open>NaN\<close>.
\<close>

definition parseTime :: "string \<Rightarrow> rat option" where
  "parseTime timeString =
     (case map Number (split_colon timeString) of
        Some hours # Some minutes # _ \<Rightarrow> Some (hours * 60 + minutes)
      | _ \<Rightarrow> None)"

text \<open>The validator \<open>/^([0-1]?[0-9]|2[0-3]):[0-5][0-9]$/\<close> of the schema and of the routes.\<close>

fun time_format :: "string \<Rightarrow> bool" where
  "time_format [h, c, m1, m2] =
     (is_digit h \<and> c = CHR '':'' \<and> m1 \<in> set ''012345'' \<and> is_digit m2)"
| "time_format [h1, h2, c, m1, m2] =
     (((h1 \<in> set ''01'' \<and> is_digit h2) \<or> (h1 = CHR ''2'' \<and> h2 \<in> set ''0123''))
      \<and> c = CHR '':'' \<and> m1 \<in> set ''012345'' \<and> is_digit m2)"
| "time_format _ = False"

section \<open>Strings\<close>

text \<open>
  A string is a list of code units below 256. \<open>String.prototype.trim\<close> removes white space
  and line terminators from both ends; below 256 these are tab, line feed, vertical tab,
  form feed, carriage return, space and no-break space. The schemas declare \<open>trim: true\<close>
  on the notes of a timesheet and on category, description, receipt, notes and rejection
  reason of an expense; the setter runs when a document is built or assigned to and when
  an update document is cast.
\<close>

definition is_space :: "char \<Rightarrow> bool" where
  "is_space c = (of_char c \<in> {9, 10, 11, 12, 13, 32, 160 :: nat})"

definition trim :: "string \<Rightarrow> string" where
  "trim s = rev (dropWhile is_space (rev (dropWhile is_space s)))"

section \<open>Documents\<close>

type_synonym objectId = nat

text \<open>A \<open>Date\<close> is the number of milliseconds since the epoch.\<close>

type_synonym jsdate = int

datatype ts_status = TsDraft | TsSubmitted | TsApproved | TsRejected

record timesheet =
  ts_id :: objectId
  ts_date :: jsdate
  ts_employeeId :: objectId
  startTime :: string
  endTime :: string
  breakTime :: rat
  totalHoursWorked :: rat
  otHours :: rat
  isVacationWork :: bool
  isHolidayWork :: bool
  ts_notes :: "string option"
  ts_createdBy :: objectId
  ts_lastModifiedBy :: "objectId option"
  ts_status :: ts_status

text \<open>
  \<open>calculateHours\<close> assigns \<open>totalHoursWorked\<close> and \<open>otHours\<close> of the document. \<open>None\<close> is
  the case where a time does not parse and both fields would become \<open>NaN\<close>.
\<close>

definition calculateHours :: "timesheet \<Rightarrow> timesheet option" where
  "calculateHours this =
     (case (parseTime (startTime this), parseTime (endTime this)) of
        (Some start, Some end) \<Rightarrow>
          (let totalMinutes = end - start;
               totalMinutes = (if totalMinutes < 0 then totalMinutes + 24 * 60 else totalMinutes);
               totalMinutes = totalMinutes - breakTime this;
               hours = max 0 (totalMinutes / 60);
               regularHours = 8
           in Some (this\<lparr>totalHoursWorked := hours, otHours := max 0 (hours - regularHours)\<rparr>))
      | _ \<Rightarrow> None)"

text \<open>
  The pre-save hook of the schema. It runs when a document is saved: \<open>isNew\<close> tells a
  new document, \<open>isModified\<close> that \<open>startTime\<close>, \<open>endTime\<close> or \<open>breakTime\<close> was
  modified on the document.
\<close>

definition pre_save :: "bool \<Rightarrow> bool \<Rightarrow> timesheet \<Rightarrow> timesheet option" where
  "pre_save isNew isModified this =
     (if isNew \<or> isModified then calculateHours this else Some this)"

datatype emp_status = Active | Inactive | Terminated

text \<open>Of an employee, the fields that the routes below read.\<close>

record employee =
  emp_id :: objectId
  emp_name :: string
  payRate :: rat
  otRate :: rat
  vacationPayRate :: rat
  emp_status :: emp_status

datatype ex_status = ExDraft | ExSubmitted | ExApproved | ExRejected | ExReimbursed

record expense =
  ex_id :: objectId
  ex_date :: jsdate
  ex_employeeId :: objectId
  category :: string
  description :: string
  amount :: rat
  currency :: string
  receipt :: "string option"
  ex_notes :: "string option"
  ex_createdBy :: objectId
  ex_lastModifiedBy :: "objectId option"
  ex_status :: ex_status
  approvedBy :: "objectId option"
  approvedAt :: "jsdate option"
  rejectionReason :: "string option"

datatype sm_status = SmDraft | SmFinalized | SmPaid

text \<open>A monthly summary; the four fields of \<open>breakdown\<close> stand beside the others.\<close>

record summary =
  sm_id :: objectId
  sm_employeeId :: objectId
  sm_month :: int
  sm_year :: int
  totalRegularHours :: rat
  totalOTHours :: rat
  totalVacationHours :: rat
  totalHolidayHours :: rat
  totalPayableAmount :: rat
  regularPay :: rat
  otPay :: rat
  vacationPay :: rat
  holidayPay :: rat
  sm_status :: sm_status
  generatedBy :: objectId
  finalizedAt :: "jsdate option"

text \<open>
  The document store: one list of documents per collection, and the source of fresh
  \<open>_id\<close> values. Documents in the store conform to their schema; the validation that
  \<open>save()\<close> and \<open>runValidators\<close> perform is modelled for the values a request supplies or
  a route computes. Failures of the storage layer itself and the \<open>createdAt\<close> and
  \<open>updatedAt\<close> stamps of the schemas are not modelled.
\<close>

record store =
  employees :: "employee list"
  timesheets :: "timesheet list"
  expenses :: "expense list"
  summaries :: "summary list"
  next_id :: objectId

section \<open>Requests and responses\<close>

datatype role = Admin | Manager | Employee

text \<open>\<open>req.user\<close>, as the authentication middleware leaves it.\<close>

record user =
  user_id :: objectId
  user_role :: role
  linkedEmployeeId :: "objectId option"

text \<open>
  A failed request: the list of field errors of the request validators (status 400), or a
  status code with its message.
\<close>

datatype failure = ValidationErrors | Status nat string

definition server_error :: failure where
  "server_error = Status 500 ''Server error''"

text \<open>
  middleware/roleCheck.js. The message of the refusal names the roles allowed and the
  role of the caller. (A second copy of the middleware in the repository differs in this
  message only.)
\<close>

definition role_name :: "role \<Rightarrow> string" where
  "role_name r = (case r of Admin \<Rightarrow> ''admin'' | Manager \<Rightarrow> ''manager''
                  | Employee \<Rightarrow> ''employee'')"

fun join_or :: "string list \<Rightarrow> string" where
  "join_or [] = []"
| "join_or [x] = x"
| "join_or (x # xs) = x @ '' or '' @ join_or xs"

definition roleCheck :: "role list \<Rightarrow> user option \<Rightarrow> failure + user" where
  "roleCheck allowedRoles u =
     (case u of
        None \<Rightarrow> Inl (Status 401 ''Authentication required'')
      | Some usr \<Rightarrow>
          if user_role usr \<notin> set allowedRoles
          then Inl (Status 403
                 (''Access denied. Insufficient permissions. Required role: ''
                  @ join_or (map role_name allowedRoles)
                  @ '', Your role: '' @ role_name (user_role usr)))
          else Inr usr)"

definition adminOrManager :: "user option \<Rightarrow> failure + user" where
  "adminOrManager = roleCheck [Admin, Manager]"

definition allRoles :: "user option \<Rightarrow> failure + user" where
  "allRoles = roleCheck [Admin, Manager, Employee]"

text \<open>The answer of \<open>adminOrManager\<close> to an employee.\<close>

definition employee_refused :: failure where
  "employee_refused =
     Status 403 (''Access denied. Insufficient permissions. ''
                 @ ''Required role: admin or manager, Your role: employee'')"

text \<open>
  A request body. A field that is absent is \<open>None\<close>; a field that is present is of the
  type its schema path casts to, except \<open>status\<close>, which is the string sent.
  The path parameter \<open>:id\<close> is a well-formed object id.
\<close>

record ts_body =
  b_date :: "jsdate option"
  b_employeeId :: "objectId option"
  b_startTime :: "string option"
  b_endTime :: "string option"
  b_breakTime :: "rat option"
  b_totalHoursWorked :: "rat option"
  b_otHours :: "rat option"
  b_isVacationWork :: "bool option"
  b_isHolidayWork :: "bool option"
  b_notes :: "string option"
  b_createdBy :: "objectId option"
  b_status :: "string option"

definition ts_status_of :: "string \<Rightarrow> ts_status option" where
  "ts_status_of s =
     (if s = ''draft'' then Some TsDraft
      else if s = ''submitted'' then Some TsSubmitted
      else if s = ''approved'' then Some TsApproved
      else if s = ''rejected'' then Some TsRejected
      else None)"

text \<open>\<open>.optional()\<close> validators pass on an absent field.\<close>

definition optionally :: "('a \<Rightarrow> bool) \<Rightarrow> 'a option \<Rightarrow> bool" where
  "optionally P x = (case x of None \<Rightarrow> True | Some v \<Rightarrow> P v)"

text \<open>A field of an update document replaces the stored one when it is present.\<close>

definition assign :: "'a option \<Rightarrow> 'a \<Rightarrow> 'a" where
  "assign x old = (case x of None \<Rightarrow> old | Some v \<Rightarrow> v)"

section \<open>Timesheet routes (routes/timesheets.js)\<close>

definition findTimesheetById :: "objectId \<Rightarrow> store \<Rightarrow> timesheet option" where
  "findTimesheetById i st = find (\<lambda>t. ts_id t = i) (timesheets st)"

definition findEmployeeById :: "objectId \<Rightarrow> store \<Rightarrow> employee option" where
  "findEmployeeById i st = find (\<lambda>e. emp_id e = i) (employees st)"

text \<open>
  \<open>GET /api/timesheets/:id\<close>. The document is populated before the ownership check, so
  \<open>timesheet.employeeId\<close> is \<open>null\<close> when the employee document is gone, and reading
  \<open>_id\<close> of it throws; so does \<open>toString()\<close> on a missing \<open>linkedEmployeeId\<close>. The
  \<open>catch\<close> block answers 500 to both.
\<close>

definition get_timesheet :: "user option \<Rightarrow> objectId \<Rightarrow> store \<Rightarrow> failure + timesheet" where
  "get_timesheet u i st =
     (case allRoles u of
        Inl f \<Rightarrow> Inl f
      | Inr usr \<Rightarrow>
          (case findTimesheetById i st of
             None \<Rightarrow> Inl (Status 404 ''Timesheet not found'')
           | Some timesheet \<Rightarrow>
               if user_role usr = Employee
               then (case (findEmployeeById (ts_employeeId timesheet) st, linkedEmployeeId usr) of
                       (Some e, Some l) \<Rightarrow>
                         if emp_id e \<noteq> l then Inl (Status 403 ''Access denied'')
                         else Inr timesheet
                     | _ \<Rightarrow> Inl server_error)
               else Inr timesheet))"

text \<open>
  \<open>POST /api/timesheets\<close>. Only the destructured fields of the body reach the new
  document, the notes trimmed. \<open>save()\<close> validates the document (of the supplied values
  only \<open>breakTime\<close> can still be out of range) and then runs the pre-save hook on the
  new document.
\<close>

definition create_timesheet ::
  "user option \<Rightarrow> ts_body \<Rightarrow> store \<Rightarrow> (failure + timesheet) \<times> store" where
  "create_timesheet u body st =
     (case allRoles u of
        Inl f \<Rightarrow> (Inl f, st)
      | Inr usr \<Rightarrow>
          (case (b_date body, b_employeeId body, b_startTime body, b_endTime body) of
             (Some date, Some employeeId, Some start, Some end) \<Rightarrow>
               if \<not> (time_format start \<and> time_format end
                      \<and> optionally (\<lambda>n. length n \<le> 500) (b_notes body))
               then (Inl ValidationErrors, st)
               else
                 (case findEmployeeById employeeId st of
                    None \<Rightarrow> (Inl (Status 404 ''Employee not found''), st)
                  | Some employee \<Rightarrow>
                      if user_role usr = Employee \<and> linkedEmployeeId usr = None
                      then (Inl server_error, st)
                      else if user_role usr = Employee \<and> linkedEmployeeId usr \<noteq> Some employeeId
                      then (Inl (Status 403 ''You can only create timesheets for yourself''), st)
                      else
                        (case find (\<lambda>t. ts_employeeId t = employeeId \<and> ts_date t = date)
                                (timesheets st) of
                           Some existingTimesheet \<Rightarrow>
                             (Inl (Status 400
                                ''Timesheet already exists for this date and employee''), st)
                         | None \<Rightarrow>
                             (let timesheet =
                                \<lparr>ts_id = next_id st, ts_date = date, ts_employeeId = employeeId,
                                 startTime = start, endTime = end,
                                 breakTime = assign (b_breakTime body) 0,
                                 totalHoursWorked = 0, otHours = 0,
                                 isVacationWork = assign (b_isVacationWork body) False,
                                 isHolidayWork = assign (b_isHolidayWork body) False,
                                 ts_notes = map_option trim (b_notes body),
                                 ts_createdBy = user_id usr,
                                 ts_lastModifiedBy = None, ts_status = TsDraft\<rparr>
                              in if \<not> (0 \<le> breakTime timesheet \<and> breakTime timesheet \<le> 480)
                                 then (Inl server_error, st)
                                 else (case pre_save True False timesheet of
                                         None \<Rightarrow> (Inl server_error, st)
                                       | Some saved \<Rightarrow>
                                           (Inr saved,
                                            st\<lparr>timesheets := timesheets st @ [saved],
                                               next_id := Suc (next_id st)\<rparr>)))))
           | _ \<Rightarrow> (Inl ValidationErrors, st)))"

text \<open>
  The update validators that \<open>runValidators: true\<close> applies to the paths of the update
  document after casting, and the update itself: \<open>{...req.body, lastModifiedBy:
  req.user.id}\<close>, cast to the schema, which trims the notes.
\<close>

definition ts_update_valid :: "ts_body \<Rightarrow> bool" where
  "ts_update_valid body =
     (optionally time_format (b_startTime body)
      \<and> optionally time_format (b_endTime body)
      \<and> optionally (\<lambda>b. 0 \<le> b \<and> b \<le> 480) (b_breakTime body)
      \<and> optionally (\<lambda>h. 0 \<le> h \<and> h \<le> 24) (b_totalHoursWorked body)
      \<and> optionally (\<lambda>h. 0 \<le> h) (b_otHours body)
      \<and> optionally (\<lambda>n. length (trim n) \<le> 500) (b_notes body)
      \<and> optionally (\<lambda>s. ts_status_of s \<noteq> None) (b_status body))"

definition ts_apply :: "ts_body \<Rightarrow> objectId \<Rightarrow> timesheet \<Rightarrow> timesheet" where
  "ts_apply body uid t =
     t\<lparr>ts_date := assign (b_date body) (ts_date t),
       ts_employeeId := assign (b_employeeId body) (ts_employeeId t),
       startTime := assign (b_startTime body) (startTime t),
       endTime := assign (b_endTime body) (endTime t),
       breakTime := assign (b_breakTime body) (breakTime t),
       totalHoursWorked := assign (b_totalHoursWorked body) (totalHoursWorked t),
       otHours := assign (b_otHours body) (otHours t),
       isVacationWork := assign (b_isVacationWork body) (isVacationWork t),
       isHolidayWork := assign (b_isHolidayWork body) (isHolidayWork t),
       ts_notes := (case b_notes body of None \<Rightarrow> ts_notes t | Some n \<Rightarrow> Some (trim n)),
       ts_createdBy := assign (b_createdBy body) (ts_createdBy t),
       ts_status := (case b_status body of
                       None \<Rightarrow> ts_status t
                     | Some s \<Rightarrow> assign (ts_status_of s) (ts_status t)),
       ts_lastModifiedBy := Some uid\<rparr>"

text \<open>
  \<open>PUT /api/timesheets/:id\<close>, with its request validators first.
  \<open>findByIdAndUpdate\<close> writes the update document to the store directly: no document is
  saved, so the pre-save hook does not run. The stored \<open>employeeId\<close> is an object id,
  whose \<open>_id\<close> is itself, so nothing is populated here.
\<close>

definition ts_request_valid :: "ts_body \<Rightarrow> bool" where
  "ts_request_valid body =
     (optionally time_format (b_startTime body)
      \<and> optionally time_format (b_endTime body)
      \<and> optionally (\<lambda>n. length n \<le> 500) (b_notes body))"

definition update_timesheet ::
  "user option \<Rightarrow> objectId \<Rightarrow> ts_body \<Rightarrow> store \<Rightarrow> (failure + timesheet) \<times> store" where
  "update_timesheet u i body st =
     (case allRoles u of
        Inl f \<Rightarrow> (Inl f, st)
      | Inr usr \<Rightarrow>
          if \<not> ts_request_valid body
          then (Inl ValidationErrors, st)
          else
            (case findTimesheetById i st of
               None \<Rightarrow> (Inl (Status 404 ''Timesheet not found''), st)
             | Some timesheet \<Rightarrow>
                 if user_role usr = Employee \<and> linkedEmployeeId usr = None
                 then (Inl server_error, st)
                 else if user_role usr = Employee
                         \<and> linkedEmployeeId usr \<noteq> Some (ts_employeeId timesheet)
                 then (Inl (Status 403 ''You can only update your own timesheets''), st)
                 else if \<not> ts_update_valid body
                 then (Inl server_error, st)
                 else
                   (let updatedTimesheet = ts_apply body (user_id usr) timesheet
                    in (Inr updatedTimesheet,
                        st\<lparr>timesheets :=
                             map (\<lambda>d. if ts_id d = i then updatedTimesheet else d)
                                 (timesheets st)\<rparr>))))"

text \<open>\<open>DELETE /api/timesheets/:id\<close>\<close>

definition delete_timesheet ::
  "user option \<Rightarrow> objectId \<Rightarrow> store \<Rightarrow> (failure + unit) \<times> store" where
  "delete_timesheet u i st =
     (case adminOrManager u of
        Inl f \<Rightarrow> (Inl f, st)
      | Inr usr \<Rightarrow>
          (case findTimesheetById i st of
             None \<Rightarrow> (Inl (Status 404 ''Timesheet not found''), st)
           | Some timesheet \<Rightarrow>
               (Inr (), st\<lparr>timesheets := filter (\<lambda>d. ts_id d \<noteq> i) (timesheets st)\<rparr>)))"

section \<open>Expense routes (routes/expenses.js)\<close>

record ex_body =
  xb_date :: "jsdate option"
  xb_employeeId :: "objectId option"
  xb_category :: "string option"
  xb_description :: "string option"
  xb_amount :: "rat option"
  xb_currency :: "string option"
  xb_receipt :: "string option"
  xb_notes :: "string option"
  xb_createdBy :: "objectId option"
  xb_status :: "string option"
  xb_approvedBy :: "objectId option"
  xb_approvedAt :: "jsdate option"
  xb_rejectionReason :: "string option"

definition ex_status_of :: "string \<Rightarrow> ex_status option" where
  "ex_status_of s =
     (if s = ''draft'' then Some ExDraft
      else if s = ''submitted'' then Some ExSubmitted
      else if s = ''approved'' then Some ExApproved
      else if s = ''rejected'' then Some ExRejected
      else if s = ''reimbursed'' then Some ExReimbursed
      else None)"

definition categories :: "string list" where
  "categories = [''transport'', ''meals'', ''accommodation'', ''supplies'', ''other'']"

definition currencies :: "string list" where
  "currencies = [''LKR'', ''USD'', ''EUR'']"

definition findExpenseById :: "objectId \<Rightarrow> store \<Rightarrow> expense option" where
  "findExpenseById i st = find (\<lambda>e. ex_id e = i) (expenses st)"

definition save_expense :: "expense \<Rightarrow> store \<Rightarrow> store" where
  "save_expense e st =
     st\<lparr>expenses := map (\<lambda>d. if ex_id d = ex_id e then e else d) (expenses st)\<rparr>"

text \<open>\<open>GET /api/expenses/:id\<close>, with the same populated ownership check as for timesheets.\<close>

definition get_expense :: "user option \<Rightarrow> objectId \<Rightarrow> store \<Rightarrow> failure + expense" where
  "get_expense u i st =
     (case allRoles u of
        Inl f \<Rightarrow> Inl f
      | Inr usr \<Rightarrow>
          (case findExpenseById i st of
             None \<Rightarrow> Inl (Status 404 ''Expense not found'')
           | Some expense \<Rightarrow>
               if user_role usr = Employee
               then (case (findEmployeeById (ex_employeeId expense) st, linkedEmployeeId usr) of
                       (Some e, Some l) \<Rightarrow>
                         if emp_id e \<noteq> l then Inl (Status 403 ''Access denied'')
                         else Inr expense
                     | _ \<Rightarrow> Inl server_error)
               else Inr expense))"

text \<open>
  The request validators of \<open>PUT /api/expenses/:id\<close>, which see the body as sent; the
  update validators of the schema, which see it cast (a description must not be empty
  once trimmed); and the update document \<open>{...req.body, lastModifiedBy: req.user.id}\<close>,
  cast to the schema. The \<open>uppercase\<close> setter of the currency changes none of the three
  codes that pass the request validator, and trimming changes none of the categories.
\<close>

definition ex_request_valid :: "ex_body \<Rightarrow> bool" where
  "ex_request_valid body =
     (optionally (\<lambda>c. c \<in> set categories) (xb_category body)
      \<and> optionally (\<lambda>d. d \<noteq> []) (xb_description body)
      \<and> optionally (\<lambda>a. 0 \<le> a) (xb_amount body)
      \<and> optionally (\<lambda>c. c \<in> set currencies) (xb_currency body)
      \<and> optionally (\<lambda>n. length n \<le> 1000) (xb_notes body))"

definition ex_update_valid :: "ex_body \<Rightarrow> bool" where
  "ex_update_valid body =
     (optionally (\<lambda>c. trim c \<in> set categories) (xb_category body)
      \<and> optionally (\<lambda>d. trim d \<noteq> [] \<and> length (trim d) \<le> 500) (xb_description body)
      \<and> optionally (\<lambda>a. 0 \<le> a) (xb_amount body)
      \<and> optionally (\<lambda>c. c \<in> set currencies) (xb_currency body)
      \<and> optionally (\<lambda>n. length (trim n) \<le> 1000) (xb_notes body)
      \<and> optionally (\<lambda>s. ex_status_of s \<noteq> None) (xb_status body)
      \<and> optionally (\<lambda>r. length (trim r) \<le> 500) (xb_rejectionReason body))"

definition assign_opt :: "'a option \<Rightarrow> 'a option \<Rightarrow> 'a option" where
  "assign_opt x old = (case x of None \<Rightarrow> old | Some v \<Rightarrow> Some v)"

definition ex_apply :: "ex_body \<Rightarrow> objectId \<Rightarrow> expense \<Rightarrow> expense" where
  "ex_apply body uid e =
     e\<lparr>ex_date := assign (xb_date body) (ex_date e),
       ex_employeeId := assign (xb_employeeId body) (ex_employeeId e),
       category := assign (map_option trim (xb_category body)) (category e),
       description := assign (map_option trim (xb_description body)) (description e),
       amount := assign (xb_amount body) (amount e),
       currency := assign (xb_currency body) (currency e),
       receipt := assign_opt (map_option trim (xb_receipt body)) (receipt e),
       ex_notes := assign_opt (map_option trim (xb_notes body)) (ex_notes e),
       ex_createdBy := assign (xb_createdBy body) (ex_createdBy e),
       ex_status := (case xb_status body of
                       None \<Rightarrow> ex_status e
                     | Some s \<Rightarrow> assign (ex_status_of s) (ex_status e)),
       approvedBy := assign_opt (xb_approvedBy body) (approvedBy e),
       approvedAt := assign_opt (xb_approvedAt body) (approvedAt e),
       rejectionReason :=
         assign_opt (map_option trim (xb_rejectionReason body)) (rejectionReason e),
       ex_lastModifiedBy := Some uid\<rparr>"

text \<open>\<open>PUT /api/expenses/:id\<close>\<close>

definition update_expense ::
  "user option \<Rightarrow> objectId \<Rightarrow> ex_body \<Rightarrow> store \<Rightarrow> (failure + expense) \<times> store" where
  "update_expense u i body st =
     (case allRoles u of
        Inl f \<Rightarrow> (Inl f, st)
      | Inr usr \<Rightarrow>
          if \<not> ex_request_valid body then (Inl ValidationErrors, st)
          else
            (case findExpenseById i st of
               None \<Rightarrow> (Inl (Status 404 ''Expense not found''), st)
             | Some expense \<Rightarrow>
                 if user_role usr = Employee \<and> linkedEmployeeId usr = None
                 then (Inl server_error, st)
                 else if user_role usr = Employee
                         \<and> linkedEmployeeId usr \<noteq> Some (ex_employeeId expense)
                 then (Inl (Status 403 ''You can only update your own expenses''), st)
                 else if user_role usr = Employee
                         \<and> ex_status expense \<notin> set [ExDraft, ExRejected]
                 then (Inl (Status 403
                   ''You can only update expenses that are in draft or rejected status''), st)
                 else if \<not> ex_update_valid body
                 then (Inl server_error, st)
                 else
                   (let updatedExpense = ex_apply body (user_id usr) expense
                    in (Inr updatedExpense,
                        st\<lparr>expenses :=
                             map (\<lambda>d. if ex_id d = i then updatedExpense else d)
                                 (expenses st)\<rparr>))))"

text \<open>\<open>PUT /api/expenses/:id/submit\<close>\<close>

definition submit_expense ::
  "user option \<Rightarrow> objectId \<Rightarrow> store \<Rightarrow> (failure + expense) \<times> store" where
  "submit_expense u i st =
     (case allRoles u of
        Inl f \<Rightarrow> (Inl f, st)
      | Inr usr \<Rightarrow>
          (case findExpenseById i st of
             None \<Rightarrow> (Inl (Status 404 ''Expense not found''), st)
           | Some expense \<Rightarrow>
               if user_role usr = Employee \<and> linkedEmployeeId usr = None
               then (Inl server_error, st)
               else if user_role usr = Employee
                       \<and> linkedEmployeeId usr \<noteq> Some (ex_employeeId expense)
               then (Inl (Status 403 ''You can only submit your own expenses''), st)
               else if ex_status expense \<noteq> ExDraft
               then (Inl (Status 400 ''Only draft expenses can be submitted''), st)
               else
                 (let saved = expense\<lparr>ex_status := ExSubmitted,
                                      ex_lastModifiedBy := Some (user_id usr)\<rparr>
                  in (Inr saved, save_expense saved st))))"

text \<open>\<open>PUT /api/expenses/:id/approve\<close>; \<open>now\<close> is what \<open>new Date()\<close> returns.\<close>

definition approve_expense ::
  "jsdate \<Rightarrow> user option \<Rightarrow> objectId \<Rightarrow> store \<Rightarrow> (failure + expense) \<times> store" where
  "approve_expense now u i st =
     (case adminOrManager u of
        Inl f \<Rightarrow> (Inl f, st)
      | Inr usr \<Rightarrow>
          (case findExpenseById i st of
             None \<Rightarrow> (Inl (Status 404 ''Expense not found''), st)
           | Some expense \<Rightarrow>
               if ex_status expense \<notin> set [ExSubmitted, ExRejected]
               then (Inl (Status 400
                       ''Only submitted or rejected expenses can be approved''), st)
               else
                 (let saved = expense\<lparr>ex_status := ExApproved,
                                      approvedBy := Some (user_id usr),
                                      approvedAt := Some now,
                                      ex_lastModifiedBy := Some (user_id usr)\<rparr>
                  in (Inr saved, save_expense saved st))))"

text \<open>
  \<open>PUT /api/expenses/:id/reject\<close>; the body carries at most \<open>rejectionReason\<close>, which is
  trimmed when it is assigned to the document.
\<close>

definition reject_expense ::
  "user option \<Rightarrow> objectId \<Rightarrow> string option \<Rightarrow> store \<Rightarrow> (failure + expense) \<times> store" where
  "reject_expense u i reason st =
     (case adminOrManager u of
        Inl f \<Rightarrow> (Inl f, st)
      | Inr usr \<Rightarrow>
          if \<not> optionally (\<lambda>r. length r \<le> 500) reason then (Inl ValidationErrors, st)
          else
            (case findExpenseById i st of
               None \<Rightarrow> (Inl (Status 404 ''Expense not found''), st)
             | Some expense \<Rightarrow>
                 if ex_status expense \<notin> set [ExSubmitted, ExApproved]
                 then (Inl (Status 400
                         ''Only submitted or approved expenses can be rejected''), st)
                 else
                   (let saved = expense\<lparr>ex_status := ExRejected,
                                        rejectionReason := Some (trim (assign reason [])),
                                        ex_lastModifiedBy := Some (user_id usr)\<rparr>
                    in (Inr saved, save_expense saved st))))"

text \<open>\<open>DELETE /api/expenses/:id\<close>\<close>

definition delete_expense ::
  "user option \<Rightarrow> objectId \<Rightarrow> store \<Rightarrow> (failure + unit) \<times> store" where
  "delete_expense u i st =
     (case allRoles u of
        Inl f \<Rightarrow> (Inl f, st)
      | Inr usr \<Rightarrow>
          (case findExpenseById i st of
             None \<Rightarrow> (Inl (Status 404 ''Expense not found''), st)
           | Some expense \<Rightarrow>
               if user_role usr = Employee \<and> linkedEmployeeId usr = None
               then (Inl server_error, st)
               else if user_role usr = Employee
                       \<and> linkedEmployeeId usr \<noteq> Some (ex_employeeId expense)
               then (Inl (Status 403 ''You can only delete your own expenses''), st)
               else if user_role usr = Employee \<and> ex_status expense \<noteq> ExDraft
               then (Inl (Status 403 ''You can only delete draft expenses''), st)
               else (Inr (), st\<lparr>expenses := filter (\<lambda>d. ex_id d \<noteq> i) (expenses st)\<rparr>)))"

section \<open>Monthly summaries (models/MonthlySummary.js, routes/reports.js)\<close>

text \<open>\<open>calculatePayableAmount\<close>, a method of the summary document.\<close>

definition calculatePayableAmount :: "summary \<Rightarrow> employee \<Rightarrow> summary" where
  "calculatePayableAmount this employee =
     (let this = this\<lparr>regularPay := totalRegularHours this * payRate employee\<rparr>;
          this = this\<lparr>otPay := totalOTHours this * otRate employee\<rparr>;
          this = this\<lparr>vacationPay := totalVacationHours this * vacationPayRate employee\<rparr>;
          this = this\<lparr>holidayPay := totalHolidayHours this * payRate employee\<rparr>
      in this\<lparr>totalPayableAmount :=
                 regularPay this + otPay this + vacationPay this + holidayPay this\<rparr>)"

text \<open>
  The routes take the \<open>Date\<close> constructor of the runtime, \<open>new Date(year, monthIndex, day,
  hours, minutes, seconds)\<close> in the local time zone of the server, as a parameter.
\<close>

type_synonym date_ctor = "int \<Rightarrow> int \<Rightarrow> int \<Rightarrow> int \<Rightarrow> int \<Rightarrow> int \<Rightarrow> jsdate"

text \<open>
  The \<open>Date\<close> constructor of ECMAScript, \<open>new Date(year, monthIndex, day, hours, minutes,
  seconds)\<close>, for a server whose local time is UTC plus a fixed offset of \<open>tz\<close> minutes
  (daylight saving is not modelled). \<open>MakeDay\<close> carries a month index beyond 11 into the
  following years and counts the days from the first of the month, so that day 0 is the
  last day of the month before.
\<close>

definition DayFromYear :: "int \<Rightarrow> int" where
  "DayFromYear y =
     365 * (y - 1970) + (y - 1969) div 4 - (y - 1901) div 100 + (y - 1601) div 400"

definition DaysInYear :: "int \<Rightarrow> int" where
  "DaysInYear y =
     (if y mod 4 \<noteq> 0 then 365
      else if y mod 100 \<noteq> 0 then 366
      else if y mod 400 \<noteq> 0 then 365
      else 366)"

text \<open>The day within the year on which the month \<open>mn\<close> (0 to 11) begins.\<close>

definition DayWithinYear :: "int \<Rightarrow> int \<Rightarrow> int" where
  "DayWithinYear y mn =
     [0, 31, 59, 90, 120, 151, 181, 212, 243, 273, 304, 334] ! nat mn
     + (if 2 \<le> mn \<and> DaysInYear y = 366 then 1 else 0)"

definition MakeDay :: "int \<Rightarrow> int \<Rightarrow> int \<Rightarrow> int" where
  "MakeDay year month date =
     (let ym = year + month div 12;
          mn = month mod 12
      in DayFromYear ym + DayWithinYear ym mn + date - 1)"

definition MakeTime :: "int \<Rightarrow> int \<Rightarrow> int \<Rightarrow> int \<Rightarrow> int" where
  "MakeTime hour minute sec ms = hour * 3600000 + minute * 60000 + sec * 1000 + ms"

definition js_Date :: "int \<Rightarrow> date_ctor" where
  "js_Date tz year monthIndex day hours minutes seconds =
     (let yr = (if 0 \<le> year \<and> year \<le> 99 then 1900 + year else year)
      in MakeDay yr monthIndex day * 86400000 + MakeTime hours minutes seconds 0
         - tz * 60000)"


text \<open>The query of \<open>calculateMonthlySummary\<close>: the employee's timesheets of the month.\<close>

definition findMonthTimesheets ::
  "date_ctor \<Rightarrow> objectId \<Rightarrow> int \<Rightarrow> int \<Rightarrow> store \<Rightarrow> timesheet list" where
  "findMonthTimesheets Date employeeId year month st =
     (let startDate = Date year (month - 1) 1 0 0 0;
          endDate = Date year month 0 23 59 59
      in filter (\<lambda>t. ts_employeeId t = employeeId
                      \<and> startDate \<le> ts_date t \<and> ts_date t \<le> endDate)
                (timesheets st))"

text \<open>
  The body of the \<open>forEach\<close>, on the four running totals (regular, overtime, vacation,
  holiday).
\<close>

definition accumulate :: "rat \<times> rat \<times> rat \<times> rat \<Rightarrow> timesheet \<Rightarrow> rat \<times> rat \<times> rat \<times> rat" where
  "accumulate totals timesheet =
     (case totals of (regular, ot, vacation, holiday) \<Rightarrow>
        (let regularHours = max 0 (totalHoursWorked timesheet - otHours timesheet)
         in (regular + regularHours,
             ot + otHours timesheet,
             (if isVacationWork timesheet then vacation + totalHoursWorked timesheet
              else vacation),
             (if isHolidayWork timesheet then holiday + totalHoursWorked timesheet
              else holiday))))"

definition calculateMonthlySummary ::
  "date_ctor \<Rightarrow> store \<Rightarrow> summary \<Rightarrow> employee \<Rightarrow> int \<Rightarrow> int \<Rightarrow> summary" where
  "calculateMonthlySummary Date st monthlySummary employee year month =
     (case foldl accumulate (0, 0, 0, 0)
             (findMonthTimesheets Date (emp_id employee) year month st) of
        (regular, ot, vacation, holiday) \<Rightarrow>
          calculatePayableAmount
            (monthlySummary\<lparr>totalRegularHours := regular,
                            totalOTHours := ot,
                            totalVacationHours := vacation,
                            totalHolidayHours := holiday\<rparr>)
            employee)"

definition findSummary :: "objectId \<Rightarrow> int \<Rightarrow> int \<Rightarrow> store \<Rightarrow> summary option" where
  "findSummary employeeId year month st =
     find (\<lambda>s. sm_employeeId s = employeeId \<and> sm_year s = year \<and> sm_month s = month)
          (summaries st)"

text \<open>The validators of the summary schema, which \<open>save()\<close> runs.\<close>

definition summary_valid :: "summary \<Rightarrow> bool" where
  "summary_valid s =
     (1 \<le> sm_month s \<and> sm_month s \<le> 12 \<and> 2020 \<le> sm_year s \<and> sm_year s \<le> 2030
      \<and> 0 \<le> totalRegularHours s \<and> 0 \<le> totalOTHours s \<and> 0 \<le> totalVacationHours s
      \<and> 0 \<le> totalHolidayHours s \<and> 0 \<le> totalPayableAmount s)"

definition save_summary :: "summary \<Rightarrow> store \<Rightarrow> store" where
  "save_summary s st =
     st\<lparr>summaries := map (\<lambda>d. if sm_id d = sm_id s then s else d) (summaries st)\<rparr>"

definition insert_summary :: "summary \<Rightarrow> store \<Rightarrow> store" where
  "insert_summary s st =
     st\<lparr>summaries := summaries st @ [s], next_id := Suc (next_id st)\<rparr>"

text \<open>\<open>new MonthlySummary({employeeId, year, month, generatedBy})\<close> with the schema defaults.\<close>

definition new_summary :: "objectId \<Rightarrow> objectId \<Rightarrow> int \<Rightarrow> int \<Rightarrow> objectId \<Rightarrow> summary" where
  "new_summary i employeeId year month uid =
     \<lparr>sm_id = i, sm_employeeId = employeeId, sm_month = month, sm_year = year,
      totalRegularHours = 0, totalOTHours = 0, totalVacationHours = 0,
      totalHolidayHours = 0, totalPayableAmount = 0,
      regularPay = 0, otPay = 0, vacationPay = 0, holidayPay = 0,
      sm_status = SmDraft, generatedBy = uid, finalizedAt = None\<rparr>"

text \<open>
  The body of the loop of \<open>POST /api/reports/generate/:year/:month\<close>, for one active
  employee: the summary of the month is found and recalculated, or created and
  calculated, and saved. A summary that fails validation makes \<open>save()\<close> throw.
\<close>

definition generate_one ::
  "date_ctor \<Rightarrow> user \<Rightarrow> int \<Rightarrow> int \<Rightarrow> employee \<Rightarrow> store \<Rightarrow> failure + summary \<times> store" where
  "generate_one Date usr yearNum monthNum employee st =
     (case findSummary (emp_id employee) yearNum monthNum st of
        Some existing \<Rightarrow>
          (let monthlySummary =
                 (calculateMonthlySummary Date st existing employee yearNum monthNum)
                   \<lparr>generatedBy := user_id usr\<rparr>
           in if \<not> summary_valid monthlySummary then Inl server_error
              else Inr (monthlySummary, save_summary monthlySummary st))
      | None \<Rightarrow>
          (let monthlySummary =
                 calculateMonthlySummary Date st
                   (new_summary (next_id st) (emp_id employee) yearNum monthNum (user_id usr))
                   employee yearNum monthNum
           in if \<not> summary_valid monthlySummary then Inl server_error
              else Inr (monthlySummary, insert_summary monthlySummary st)))"

text \<open>
  The loop over the active employees. When \<open>save()\<close> throws, the route answers 500 and
  the summaries saved before stay.
\<close>

fun generate_loop ::
  "date_ctor \<Rightarrow> user \<Rightarrow> int \<Rightarrow> int \<Rightarrow> employee list \<Rightarrow> summary list \<Rightarrow> store
   \<Rightarrow> (failure + summary list) \<times> store" where
  "generate_loop Date usr yearNum monthNum [] generatedSummaries st =
     (Inr generatedSummaries, st)"
| "generate_loop Date usr yearNum monthNum (employee # rest) generatedSummaries st =
     (case generate_one Date usr yearNum monthNum employee st of
        Inl f \<Rightarrow> (Inl f, st)
      | Inr (monthlySummary, st') \<Rightarrow>
          generate_loop Date usr yearNum monthNum rest
            (generatedSummaries @ [monthlySummary]) st')"

text \<open>
  \<open>POST /api/reports/generate/:year/:month\<close>; \<open>yearNum\<close> and \<open>monthNum\<close> are the integers
  that \<open>parseInt\<close> reads from the path.
\<close>

definition generate ::
  "date_ctor \<Rightarrow> user option \<Rightarrow> int \<Rightarrow> int \<Rightarrow> store \<Rightarrow> (failure + summary list) \<times> store" where
  "generate Date u yearNum monthNum st =
     (case adminOrManager u of
        Inl f \<Rightarrow> (Inl f, st)
      | Inr usr \<Rightarrow>
          if monthNum < 1 \<or> monthNum > 12 then (Inl (Status 400 ''Invalid month''), st)
          else if yearNum < 2020 \<or> yearNum > 2030 then (Inl (Status 400 ''Invalid year''), st)
          else generate_loop Date usr yearNum monthNum
                 (filter (\<lambda>e. emp_status e = Active) (employees st)) [] st)"

text \<open>\<open>PUT /api/reports/monthly/:id/finalize\<close>; \<open>now\<close> is what \<open>new Date()\<close> returns.\<close>

definition finalize ::
  "jsdate \<Rightarrow> user option \<Rightarrow> objectId \<Rightarrow> store \<Rightarrow> (failure + summary) \<times> store" where
  "finalize now u i st =
     (case adminOrManager u of
        Inl f \<Rightarrow> (Inl f, st)
      | Inr usr \<Rightarrow>
          (case find (\<lambda>s. sm_id s = i) (summaries st) of
             None \<Rightarrow> (Inl (Status 404 ''Monthly summary not found''), st)
           | Some summary \<Rightarrow>
               if sm_status summary = SmFinalized
               then (Inl (Status 400 ''Summary already finalized''), st)
               else
                 (let saved = summary\<lparr>sm_status := SmFinalized, finalizedAt := Some now\<rparr>
                  in (Inr saved, save_summary saved st))))"

section \<open>Properties of the store\<close>

text \<open>At most one timesheet for an employee and a date.\<close>

definition unique_entries :: "store \<Rightarrow> bool" where
  "unique_entries st = distinct (map (\<lambda>t. (ts_employeeId t, ts_date t)) (timesheets st))"

text \<open>
  The summaries of a store have distinct ids, all issued before \<open>next_id\<close>, and distinct
  keys (employee, year, month), as the unique index of the collection demands.
\<close>

definition sm_key :: "summary \<Rightarrow> objectId \<times> int \<times> int" where
  "sm_key s = (sm_employeeId s, sm_year s, sm_month s)"

definition summaries_ok :: "store \<Rightarrow> bool" where
  "summaries_ok st =
     (distinct (map sm_id (summaries st)) \<and> distinct (map sm_key (summaries st))
      \<and> (\<forall>s \<in> set (summaries st). sm_id s < next_id st))"

text \<open>
  The stored hours and pay rates are not negative, as the schemas demand, and employees
  have distinct ids.
\<close>

definition rates_ok :: "employee \<Rightarrow> bool" where
  "rates_ok e = (0 \<le> payRate e \<and> 0 \<le> otRate e \<and> 0 \<le> vacationPayRate e)"

definition store_ok :: "store \<Rightarrow> bool" where
  "store_ok st =
     (summaries_ok st
      \<and> (\<forall>t \<in> set (timesheets st). 0 \<le> totalHoursWorked t \<and> 0 \<le> otHours t)
      \<and> (\<forall>e \<in> set (employees st). rates_ok e)
      \<and> distinct (map emp_id (employees st)))"

text \<open>A summary without the user who generated it.\<close>

definition anonymous :: "summary \<Rightarrow> summary" where
  "anonymous s = s\<lparr>generatedBy := 0\<rparr>"

text \<open>
  The summary \<open>s\<close> is what generation from the store \<open>st\<close> leaves for an employee: the
  summary that existed, recalculated in place, or else a new draft with a fresh id.
\<close>

definition generated_for ::
  "date_ctor \<Rightarrow> user \<Rightarrow> int \<Rightarrow> int \<Rightarrow> store \<Rightarrow> employee \<Rightarrow> summary \<Rightarrow> bool" where
  "generated_for Date usr year month st e s =
     (case findSummary (emp_id e) year month st of
        Some existing \<Rightarrow>
          s = (calculateMonthlySummary Date st existing e year month)
                \<lparr>generatedBy := user_id usr\<rparr>
      | None \<Rightarrow>
          next_id st \<le> sm_id s
          \<and> s = calculateMonthlySummary Date st
                  (new_summary (sm_id s) (emp_id e) year month (user_id usr)) e year month)"

text \<open>
  From \<open>st\<close> to \<open>st'\<close> the summaries of \<open>st\<close> stay where they are in the collection, and
  those that are finalized stay finalized.
\<close>

definition keeps_finalized :: "store \<Rightarrow> store \<Rightarrow> bool" where
  "keeps_finalized st st' =
     list_all2 (\<lambda>d d'. sm_id d' = sm_id d
                  \<and> (sm_status d = SmFinalized \<longrightarrow> sm_status d' = SmFinalized))
       (summaries st) (take (length (summaries st)) (summaries st'))"

text \<open>
  The calendar, for stating which instants lie in a month: the number of days from
  1 January 1970 to a date of the Gregorian calendar, the instant of a local date and time
  of day at an offset of \<open>tz\<close> minutes from UTC, and the length of a month.
\<close>

definition days_from_civil :: "int \<Rightarrow> int \<Rightarrow> int \<Rightarrow> int" where
  "days_from_civil year month day =
     (let y = (if month \<le> 2 then year - 1 else year);
          era = y div 400;
          yoe = y - era * 400;
          doy = (153 * (if month > 2 then month - 3 else month + 9) + 2) div 5 + day - 1;
          doe = yoe * 365 + yoe div 4 - yoe div 100 + doy
      in era * 146097 + doe - 719468)"

definition civil_instant :: "int \<Rightarrow> int \<Rightarrow> int \<Rightarrow> int \<Rightarrow> int \<Rightarrow> int \<Rightarrow> int \<Rightarrow> jsdate" where
  "civil_instant tz year month day hours minutes seconds =
     (((days_from_civil year month day * 24 + hours) * 60 + minutes) * 60 + seconds) * 1000
     - tz * 60000"

definition leap_year :: "int \<Rightarrow> bool" where
  "leap_year y = (y mod 4 = 0 \<and> (y mod 100 \<noteq> 0 \<or> y mod 400 = 0))"

definition days_in_month :: "int \<Rightarrow> int \<Rightarrow> int" where
  "days_in_month y m =
     (if m = 2 then (if leap_year y then 29 else 28)
      else if m = 4 \<or> m = 6 \<or> m = 9 \<or> m = 11 then 30
      else 31)"

section \<open>Times of day and example data\<close>

text \<open>The string \<open>HH:MM\<close> of an hour and a minute, two decimal digits each.\<close>

definition digit_char :: "nat \<Rightarrow> char" where
  "digit_char d = ''0123456789'' ! d"

definition hhmm :: "nat \<Rightarrow> nat \<Rightarrow> string" where
  "hhmm h m = [digit_char (h div 10), digit_char (h mod 10), CHR '':'',
               digit_char (m div 10), digit_char (m mod 10)]"

text \<open>A timesheet of employee 1 with the given times and break, hours not yet calculated.\<close>

definition shift :: "string \<Rightarrow> string \<Rightarrow> rat \<Rightarrow> timesheet" where
  "shift start end break =
     \<lparr>ts_id = 10, ts_date = 0, ts_employeeId = 1, startTime = start, endTime = end,
      breakTime = break, totalHoursWorked = 0, otHours = 0, isVacationWork = False,
      isHolidayWork = False, ts_notes = None, ts_createdBy = 100, ts_lastModifiedBy = None,
      ts_status = TsDraft\<rparr>"

definition alice :: employee where
  "alice = \<lparr>emp_id = 1, emp_name = ''Alice'', payRate = 25, otRate = 75 / 2,
            vacationPayRate = 25, emp_status = Active\<rparr>"

definition bob :: employee where
  "bob = \<lparr>emp_id = 2, emp_name = ''Bob'', payRate = 20, otRate = 30,
          vacationPayRate = 22, emp_status = Active\<rparr>"

definition admin :: user where
  "admin = \<lparr>user_id = 100, user_role = Admin, linkedEmployeeId = None\<rparr>"

text \<open>The accounts of Alice and of Bob.\<close>

definition worker :: user where
  "worker = \<lparr>user_id = 101, user_role = Employee, linkedEmployeeId = Some 1\<rparr>"

definition other_worker :: user where
  "other_worker = \<lparr>user_id = 102, user_role = Employee, linkedEmployeeId = Some 2\<rparr>"

text \<open>Alice's stored shift from 09:00 to 17:00 (document 10), in a given status.\<close>

definition day_shift :: "ts_status \<Rightarrow> timesheet" where
  "day_shift s = (shift ''09:00'' ''17:00'' 0)\<lparr>totalHoursWorked := 8, otHours := 0,
                                               ts_status := s\<rparr>"

text \<open>Her shift of the next day (document 11).\<close>

definition next_shift :: timesheet where
  "next_shift = (day_shift TsDraft)\<lparr>ts_id := 11, ts_date := 86400000\<rparr>"

text \<open>An expense of Alice (document 20), in a given status.\<close>

definition lunch :: "ex_status \<Rightarrow> expense" where
  "lunch s =
     \<lparr>ex_id = 20, ex_date = 0, ex_employeeId = 1, category = ''meals'',
      description = ''Lunch'', amount = 12, currency = ''USD'', receipt = None,
      ex_notes = None, ex_createdBy = 101, ex_lastModifiedBy = None, ex_status = s,
      approvedBy = None, approvedAt = None, rejectionReason = None\<rparr>"

definition office :: "ts_status \<Rightarrow> ex_status \<Rightarrow> store" where
  "office s x =
     \<lparr>employees = [alice, bob], timesheets = [day_shift s, next_shift],
      expenses = [lunch x], summaries = [], next_id = 1000\<rparr>"

text \<open>Request bodies without any field.\<close>

definition ts_no_fields :: ts_body where
  "ts_no_fields =
     \<lparr>b_date = None, b_employeeId = None, b_startTime = None, b_endTime = None,
      b_breakTime = None, b_totalHoursWorked = None, b_otHours = None,
      b_isVacationWork = None, b_isHolidayWork = None, b_notes = None,
      b_createdBy = None, b_status = None\<rparr>"

definition ex_no_fields :: ex_body where
  "ex_no_fields =
     \<lparr>xb_date = None, xb_employeeId = None, xb_category = None, xb_description = None,
      xb_amount = None, xb_currency = None, xb_receipt = None, xb_notes = None,
      xb_createdBy = None, xb_status = None, xb_approvedBy = None, xb_approvedAt = None,
      xb_rejectionReason = None\<rparr>"

text \<open>
  A \<open>Date\<close> constructor for UTC by the days from the epoch: a month index beyond 11 and
  a day before 1 carry over.
\<close>

definition utc_date :: date_ctor where
  "utc_date year monthIndex day hours minutes seconds =
     (let days = days_from_civil (year + monthIndex div 12) (monthIndex mod 12 + 1) 1
                 + (day - 1)
      in (((days * 24 + hours) * 60 + minutes) * 60 + seconds) * 1000)"

text \<open>A stored timesheet with the given id, employee, date, hours, overtime and flags.\<close>

definition worked ::
  "objectId \<Rightarrow> objectId \<Rightarrow> jsdate \<Rightarrow> rat \<Rightarrow> rat \<Rightarrow> bool \<Rightarrow> bool \<Rightarrow> timesheet" where
  "worked i e d h ot vacation holiday =
     (shift ''08:00'' ''18:00'' 0)\<lparr>ts_id := i, ts_employeeId := e, ts_date := d,
        totalHoursWorked := h, otHours := ot, isVacationWork := vacation,
        isHolidayWork := holiday\<rparr>"

definition carol :: employee where
  "carol = \<lparr>emp_id = 3, emp_name = ''Carol'', payRate = 30, otRate = 45,
            vacationPayRate = 30, emp_status = Inactive\<rparr>"

text \<open>Bob's summary of March 2024 (document 50), generated earlier, in a given status.\<close>

definition old_summary :: "sm_status \<Rightarrow> summary" where
  "old_summary s = (new_summary 50 2 2024 3 100)\<lparr>totalRegularHours := 4, regularPay := 80,
                                                  totalPayableAmount := 80, sm_status := s\<rparr>"

text \<open>
  March 2024. Alice works 8 hours on the 1st, dated at midnight, and 8 hours dated at
  23:59:59 of the 31st, 10 hours on the 5th, on vacation, 2 of them overtime, 7 hours
  dated one millisecond before the month and 5 hours dated one millisecond after
  23:59:59 of the 31st. Bob works 6 hours on a holiday.
\<close>

definition payroll :: "sm_status \<Rightarrow> store" where
  "payroll s =
     \<lparr>employees = [alice, bob, carol],
      timesheets = [worked 11 1 1709251200000 8 0 False False,
                    worked 12 1 1709596800000 10 2 True False,
                    worked 13 1 1711929599000 8 0 False False,
                    worked 14 2 1709510400000 6 0 False True,
                    worked 15 1 1709251199999 7 0 False False,
                    worked 16 1 1711929599001 5 0 False False],
      expenses = [], summaries = [old_summary s], next_id = 1000\<rparr>"

definition manager :: user where
  "manager = \<lparr>user_id = 103, user_role = Manager, linkedEmployeeId = None\<rparr>"

section \<open>Basic facts\<close>

lemma find_Some_pred: "find P xs = Some x \<Longrightarrow> P x"
  by (induction xs) (auto split: if_splits)

lemma find_Some_mem: "find P xs = Some x \<Longrightarrow> x \<in> set xs"
  by (induction xs) (auto split: if_splits)

lemma find_replace:
  assumes "find (\<lambda>d. key d = i) xs = Some x" and "key y = i"
  shows "find (\<lambda>d. key d = i) (map (\<lambda>d. if key d = i then y else d) xs) = Some y"
  using assms by (induction xs) (auto split: if_splits)

lemma findExpenseById_id: "findExpenseById i st = Some e \<Longrightarrow> ex_id e = i"
  unfolding findExpenseById_def by (rule find_Some_pred)

lemma findExpenseById_save:
  assumes "findExpenseById i st = Some e" and "ex_id e' = i"
  shows "findExpenseById i (save_expense e' st) = Some e'"
  using assms find_replace [of ex_id i "expenses st" e e']
  by (simp add: findExpenseById_def save_expense_def)

lemma adminOrManager_passes:
  "user_role usr \<in> {Admin, Manager} \<Longrightarrow> adminOrManager (Some usr) = Inr usr"
  by (auto simp: adminOrManager_def roleCheck_def)

lemma adminOrManager_employee:
  "user_role usr = Employee \<Longrightarrow>
   adminOrManager (Some usr) = Inl employee_refused"
  by (simp add: adminOrManager_def roleCheck_def role_name_def employee_refused_def)

lemma allRoles_passes: "allRoles (Some usr) = Inr usr"
  by (cases "user_role usr") (simp_all add: allRoles_def roleCheck_def)

lemma findTimesheetById_id: "findTimesheetById i st = Some t \<Longrightarrow> ts_id t = i"
  unfolding findTimesheetById_def by (rule find_Some_pred)

lemma find_None_iff: "find P xs = None \<longleftrightarrow> (\<forall>x \<in> set xs. \<not> P x)"
  by (induction xs) auto

lemma findEmployeeById_id: "findEmployeeById i st = Some e \<Longrightarrow> emp_id e = i"
  unfolding findEmployeeById_def by (rule find_Some_pred)

lemma find_map_same:
  "(\<And>x. x \<in> set xs \<Longrightarrow> P (f x) = P x) \<Longrightarrow> find P (map f xs) = map_option f (find P xs)"
  by (induction xs) simp_all

lemma find_append_cases:
  "find P (xs @ ys) = (case find P xs of Some x \<Rightarrow> Some x | None \<Rightarrow> find P ys)"
  by (induction xs) simp_all

lemma distinct_map_eq:
  "distinct (map g xs) \<Longrightarrow> x \<in> set xs \<Longrightarrow> y \<in> set xs \<Longrightarrow> g x = g y \<Longrightarrow> x = y"
  by (auto simp: distinct_map dest: inj_onD)


section \<open>The time calculator\<close>

lemma digit_cases:
  "d < 10 \<Longrightarrow> d = 0 \<or> d = 1 \<or> d = 2 \<or> d = 3 \<or> d = 4 \<or> d = 5 \<or> d = 6 \<or> d = 7 \<or> d = 8 \<or> d = (9::nat)"
  by arith

lemma digit_char_props:
  assumes "d < 10"
  shows "is_digit (digit_char d)"
    and "digit_char d \<noteq> CHR '':''"
    and "digit_val (digit_char d) = d"
  using digit_cases [OF assms]
  by (auto simp: is_digit_def digit_char_def digit_val_def)

lemma digit_char_05:
  assumes "d < 6"
  shows "digit_char d \<in> set ''012345''"
proof -
  have "d = 0 \<or> d = 1 \<or> d = 2 \<or> d = 3 \<or> d = 4 \<or> d = 5"
    using assms by arith
  then show ?thesis by (auto simp: digit_char_def)
qed

lemma digit_char_03:
  assumes "d < 4"
  shows "digit_char d \<in> set ''0123''"
proof -
  have "d = 0 \<or> d = 1 \<or> d = 2 \<or> d = 3"
    using assms by arith
  then show ?thesis by (auto simp: digit_char_def)
qed

lemma digit_char_012:
  "digit_char 0 = CHR ''0''" "digit_char (Suc 0) = CHR ''1''" "digit_char 2 = CHR ''2''"
  by (simp_all add: digit_char_def)

lemma parseTime_two_digits:
  assumes "is_digit a" "is_digit b" "is_digit c" "is_digit d"
    and "a \<noteq> CHR '':''" "b \<noteq> CHR '':''" "c \<noteq> CHR '':''" "d \<noteq> CHR '':''"
  shows "parseTime [a, b, CHR '':'', c, d] =
         Some (of_nat (digit_val a * 10 + digit_val b) * 60
               + of_nat (digit_val c * 10 + digit_val d))"
  using assms by (simp add: parseTime_def Number_def)

text \<open>\<open>parseTime\<close> reads \<open>HH:MM\<close> as the minutes since midnight.\<close>

lemma parseTime_hhmm:
  assumes "h < 24" "m < 60"
  shows "parseTime (hhmm h m) = Some (of_nat (h * 60 + m))"
proof -
  have d: "h div 10 < 10" "h mod 10 < 10" "m div 10 < 10" "m mod 10 < 10"
    using assms by auto
  show ?thesis
    unfolding hhmm_def
    by (simp add: parseTime_two_digits digit_char_props d)
qed

text \<open>Every such string passes the validator of the schema.\<close>

lemma time_format_hhmm:
  assumes "h < 24" "m < 60"
  shows "time_format (hhmm h m)"
proof -
  have b: "h mod 10 < 10" "m div 10 < 6" "m mod 10 < 10"
    using assms by simp_all
  have d: "is_digit (digit_char (h mod 10))" "digit_char (m div 10) \<in> set ''012345''"
    "is_digit (digit_char (m mod 10))"
    using digit_char_props(1) [OF b(1)] digit_char_05 [OF b(2)] digit_char_props(1) [OF b(3)]
    by blast+
  have "h div 10 = 0 \<or> h div 10 = 1 \<or> (h div 10 = 2 \<and> h mod 10 < 4)"
    using assms by presburger
  then have "(digit_char (h div 10) \<in> set ''01'' \<and> is_digit (digit_char (h mod 10)))
      \<or> (digit_char (h div 10) = CHR ''2'' \<and> digit_char (h mod 10) \<in> set ''0123'')"
    using d(1) digit_char_03 [of "h mod 10"] by (auto simp: digit_char_012)
  then show ?thesis
    unfolding hhmm_def time_format.simps using d by blast
qed

lemma calculateHours_hhmm:
  assumes "h1 < 24" "m1 < 60" "h2 < 24" "m2 < 60"
    and "startTime t = hhmm h1 m1" "endTime t = hhmm h2 m2"
  shows "calculateHours t =
     (let startMinutes = int (h1 * 60 + m1); endMinutes = int (h2 * 60 + m2);
          hoursWorked = max 0 (of_int ((endMinutes - startMinutes)
             + (if endMinutes < startMinutes then 1440 else 0)) - breakTime t) / 60
      in Some (t\<lparr>totalHoursWorked := hoursWorked, otHours := max 0 (hoursWorked - 8)\<rparr>))"
proof -
  have *: "max 0 (x / 60) = max 0 x / (60::rat)" for x
    by (simp add: max_def)
  show ?thesis
    using assms
    by (simp add: calculateHours_def parseTime_hhmm Let_def * del: of_nat_add of_nat_mult)
qed

lemma calculateHours_shift:
  "calculateHours (shift ''22:00'' ''06:00'' 0)
     = Some ((shift ''22:00'' ''06:00'' 0)\<lparr>totalHoursWorked := 8, otHours := 0\<rparr>)"
  "calculateHours (shift ''09:00'' ''09:30'' 60)
     = Some ((shift ''09:00'' ''09:30'' 60)\<lparr>totalHoursWorked := 0, otHours := 0\<rparr>)"
  by (simp_all add: calculateHours_def parseTime_def Number_def is_digit_def digit_val_def
        shift_def)

text \<open>
  C1. For start and end times \<open>HH:MM\<close> with hours 00 to 23 and minutes 00 to 59 and an
  integer break of 0 to 480 minutes, \<open>calculateHours\<close> stores
  \<open>hoursWorked = max(0, (end - start) + (1440 if end < start) - break) / 60\<close> and
  \<open>otHours = max(0, hoursWorked - 8)\<close>, the times taken in minutes since midnight. The shift
  22:00 to 06:00 without break has 8 hours and no overtime; the shift 09:00 to 09:30
  with a break of 60 minutes has 0 hours.
\<close>

theorem C1_time_calculator:
  "(\<forall>h1 m1 h2 m2 b t.
      h1 < 24 \<and> m1 < 60 \<and> h2 < 24 \<and> m2 < 60 \<and> 0 \<le> b \<and> b \<le> 480
      \<and> startTime t = hhmm h1 m1 \<and> endTime t = hhmm h2 m2 \<and> breakTime t = of_int b
      \<longrightarrow> calculateHours t =
          (let startMinutes = int (h1 * 60 + m1); endMinutes = int (h2 * 60 + m2);
               hoursWorked = rat_of_int (max 0 (((endMinutes - startMinutes)
                  + (if endMinutes < startMinutes then 1440 else 0)) - b)) / 60
           in Some (t\<lparr>totalHoursWorked := hoursWorked, otHours := max 0 (hoursWorked - 8)\<rparr>)))
   \<and> map_option (\<lambda>t. (totalHoursWorked t, otHours t))
        (calculateHours (shift ''22:00'' ''06:00'' 0)) = Some (8, 0)
   \<and> map_option totalHoursWorked (calculateHours (shift ''09:00'' ''09:30'' 60)) = Some 0"
proof (intro conjI allI impI)
  fix h1 m1 h2 m2 :: nat and b :: int and t :: timesheet
  assume a: "h1 < 24 \<and> m1 < 60 \<and> h2 < 24 \<and> m2 < 60 \<and> 0 \<le> b \<and> b \<le> 480
      \<and> startTime t = hhmm h1 m1 \<and> endTime t = hhmm h2 m2 \<and> breakTime t = of_int b"
  have m: "max 0 (rat_of_int x - rat_of_int b) = rat_of_int (max 0 (x - b))" for x
    by (simp add: max_def)
  from a have "calculateHours t =
     (let startMinutes = int (h1 * 60 + m1); endMinutes = int (h2 * 60 + m2);
          hoursWorked = max 0 (of_int ((endMinutes - startMinutes)
             + (if endMinutes < startMinutes then 1440 else 0)) - breakTime t) / 60
      in Some (t\<lparr>totalHoursWorked := hoursWorked, otHours := max 0 (hoursWorked - 8)\<rparr>))"
    by (intro calculateHours_hhmm) simp_all
  with a show "calculateHours t =
          (let startMinutes = int (h1 * 60 + m1); endMinutes = int (h2 * 60 + m2);
               hoursWorked = rat_of_int (max 0 (((endMinutes - startMinutes)
                  + (if endMinutes < startMinutes then 1440 else 0)) - b)) / 60
           in Some (t\<lparr>totalHoursWorked := hoursWorked, otHours := max 0 (hoursWorked - 8)\<rparr>))"
    by (simp only: Let_def m)
next
  show "map_option (\<lambda>t. (totalHoursWorked t, otHours t))
        (calculateHours (shift ''22:00'' ''06:00'' 0)) = Some (8, 0)"
    by (simp add: calculateHours_shift)
next
  show "map_option totalHoursWorked (calculateHours (shift ''09:00'' ''09:30'' 60)) = Some 0"
    by (simp add: calculateHours_shift)
qed

theorem C1_time_calculator_witness:
  "map_option (\<lambda>t. (totalHoursWorked t, otHours t))
     (calculateHours (shift ''08:15'' ''17:45'' 30)) = Some (9, 1)"
proof -
  have h: "hhmm 8 15 = ''08:15''" "hhmm 17 45 = ''17:45''"
    by (simp_all add: hhmm_def digit_char_def)
  have "(8::nat) < 24 \<and> (15::nat) < 60 \<and> (17::nat) < 24 \<and> (45::nat) < 60
      \<and> (0::int) \<le> 30 \<and> (30::int) \<le> 480
      \<and> startTime (shift ''08:15'' ''17:45'' 30) = hhmm 8 15
      \<and> endTime (shift ''08:15'' ''17:45'' 30) = hhmm 17 45
      \<and> breakTime (shift ''08:15'' ''17:45'' 30) = of_int 30"
    by (simp add: h shift_def)
  with C1_time_calculator
  have "calculateHours (shift ''08:15'' ''17:45'' 30) =
          (let startMinutes = int (8 * 60 + 15); endMinutes = int (17 * 60 + 45);
               hoursWorked = rat_of_int (max 0 (((endMinutes - startMinutes)
                  + (if endMinutes < startMinutes then 1440 else 0)) - 30)) / 60
           in Some ((shift ''08:15'' ''17:45'' 30)
                \<lparr>totalHoursWorked := hoursWorked, otHours := max 0 (hoursWorked - 8)\<rparr>))"
    by blast
  then show ?thesis by (simp add: Let_def)
qed

section \<open>The expense lifecycle\<close>

lemma approve_expense_result:
  assumes "user_role usr \<in> {Admin, Manager}" and "findExpenseById i st = Some e"
  shows "approve_expense now (Some usr) i st =
     (if ex_status e \<in> {ExSubmitted, ExRejected}
      then (let saved = e\<lparr>ex_status := ExApproved, approvedBy := Some (user_id usr),
                          approvedAt := Some now, ex_lastModifiedBy := Some (user_id usr)\<rparr>
            in (Inr saved, save_expense saved st))
      else (Inl (Status 400 ''Only submitted or rejected expenses can be approved''), st))"
  using assms by (simp add: approve_expense_def adminOrManager_passes)

lemma reject_expense_result:
  assumes "user_role usr \<in> {Admin, Manager}" and "findExpenseById i st = Some e"
    and "optionally (\<lambda>r. length r \<le> 500) reason"
  shows "reject_expense (Some usr) i reason st =
     (if ex_status e \<in> {ExSubmitted, ExApproved}
      then (let saved = e\<lparr>ex_status := ExRejected, rejectionReason := Some (trim (assign reason [])),
                          ex_lastModifiedBy := Some (user_id usr)\<rparr>
            in (Inr saved, save_expense saved st))
      else (Inl (Status 400 ''Only submitted or approved expenses can be rejected''), st))"
  using assms by (simp add: reject_expense_def adminOrManager_passes)

text \<open>
  C5. For an admin or manager and a stored expense, approval succeeds exactly when the
  status is submitted or rejected; otherwise (so for a draft) it fails with status 400
  and the store is unchanged. On success the stored expense is approved and carries the
  approver and the time of approval. Rejection (with a reason of at most 500 characters,
  or none) succeeds exactly when the status is submitted or approved, and the stored
  expense is then rejected.
\<close>

theorem C5_approve_reject:
  assumes "user_role usr \<in> {Admin, Manager}"
    and "findExpenseById i st = Some e"
    and "optionally (\<lambda>r. length r \<le> 500) reason"
  shows "((\<exists>e'. fst (approve_expense now (Some usr) i st) = Inr e')
            \<longleftrightarrow> ex_status e \<in> {ExSubmitted, ExRejected})
    \<and> (ex_status e \<notin> {ExSubmitted, ExRejected} \<longrightarrow>
          approve_expense now (Some usr) i st =
            (Inl (Status 400 ''Only submitted or rejected expenses can be approved''), st))
    \<and> (ex_status e \<in> {ExSubmitted, ExRejected} \<longrightarrow>
          (\<exists>e'. fst (approve_expense now (Some usr) i st) = Inr e'
              \<and> findExpenseById i (snd (approve_expense now (Some usr) i st)) = Some e'
              \<and> ex_status e' = ExApproved \<and> approvedBy e' = Some (user_id usr)
              \<and> approvedAt e' = Some now))
    \<and> ((\<exists>e'. fst (reject_expense (Some usr) i reason st) = Inr e')
            \<longleftrightarrow> ex_status e \<in> {ExSubmitted, ExApproved})
    \<and> (ex_status e \<notin> {ExSubmitted, ExApproved} \<longrightarrow>
          snd (reject_expense (Some usr) i reason st) = st)
    \<and> (ex_status e \<in> {ExSubmitted, ExApproved} \<longrightarrow>
          (\<exists>e'. fst (reject_expense (Some usr) i reason st) = Inr e'
              \<and> findExpenseById i (snd (reject_expense (Some usr) i reason st)) = Some e'
              \<and> ex_status e' = ExRejected))"
proof -
  note a = approve_expense_result [OF assms(1,2), of now]
  note r = reject_expense_result [OF assms]
  have i: "ex_id e = i"
    using assms(2) by (rule findExpenseById_id)
  show ?thesis
    unfolding a r using i assms(2)
    by (simp add: Let_def findExpenseById_save)
qed

theorem C5_approve_reject_witness:
  "fst (approve_expense 5000 (Some admin) 20 (office TsDraft ExSubmitted))
     = Inr ((lunch ExApproved)\<lparr>approvedBy := Some 100, approvedAt := Some 5000,
                               ex_lastModifiedBy := Some 100\<rparr>)
   \<and> approve_expense 5000 (Some admin) 20 (office TsDraft ExDraft)
     = (Inl (Status 400 ''Only submitted or rejected expenses can be approved''),
        office TsDraft ExDraft)
   \<and> (\<exists>e'. fst (reject_expense (Some admin) 20 None (office TsDraft ExApproved)) = Inr e')"
proof -
  have u: "user_role admin \<in> {Admin, Manager}"
    by (simp add: admin_def)
  have o: "optionally (\<lambda>r. length r \<le> 500) (None :: string option)"
    by (simp add: optionally_def)
  have f: "findExpenseById 20 (office s x) = Some (lunch x)" for s x
    by (simp add: findExpenseById_def office_def lunch_def)
  have "fst (approve_expense 5000 (Some admin) 20 (office TsDraft ExSubmitted))
     = Inr ((lunch ExApproved)\<lparr>approvedBy := Some 100, approvedAt := Some 5000,
                               ex_lastModifiedBy := Some 100\<rparr>)"
    by (simp add: approve_expense_def adminOrManager_passes [OF u] f Let_def)
       (simp add: lunch_def admin_def)
  moreover have "ex_status (lunch ExDraft) \<notin> {ExSubmitted, ExRejected}"
    "ex_status (lunch ExApproved) \<in> {ExSubmitted, ExApproved}"
    by (simp_all add: lunch_def)
  ultimately show ?thesis
    using C5_approve_reject [OF u f [of TsDraft ExDraft] o, where now = 5000]
      C5_approve_reject [OF u f [of TsDraft ExApproved] o, where now = 5000]
    by blast
qed

section \<open>The generic expense update\<close>

lemma trim_examples:
  "trim ''  late  '' = ''late''" "trim ''   '' = []" "trim ''Team lunch '' = ''Team lunch''"
  by (simp_all add: trim_def is_space_def)

lemma trim_category: "c \<in> set categories \<Longrightarrow> trim c = c"
  by (auto simp: categories_def trim_def is_space_def)

lemma update_expense_owner:
  assumes "user_role usr = Employee"
    and "linkedEmployeeId usr = Some (ex_employeeId e)"
    and "findExpenseById i st = Some e"
    and "ex_status e \<in> {ExDraft, ExRejected}"
    and "ex_request_valid body" and "ex_update_valid body"
  shows "update_expense (Some usr) i body st =
           (Inr (ex_apply body (user_id usr) e),
            st\<lparr>expenses := map (\<lambda>d. if ex_id d = i then ex_apply body (user_id usr) e else d)
                                (expenses st)\<rparr>)"
  using assms by (auto simp: update_expense_def allRoles_passes Let_def)

text \<open>
  A description of blanks passes the request validators, but it is empty once the update
  is cast, and the update validators refuse it: the route answers 500.
\<close>

lemma update_expense_blank_description:
  "update_expense (Some worker) 20
     (ex_no_fields\<lparr>xb_status := Some ''approved'', xb_description := Some ''   ''\<rparr>)
     (office TsDraft ExDraft)
   = (Inl server_error, office TsDraft ExDraft)"
  by (simp add: update_expense_def allRoles_passes ex_no_fields_def ex_request_valid_def
        ex_update_valid_def optionally_def findExpenseById_def office_def lunch_def
        worker_def trim_examples)

text \<open>
  C10. The update route for expenses writes every field of the body, the status
  included. For an employee who owns an expense in draft or rejected status, an update
  whose body passes the validators and carries the status \<open>approved\<close> succeeds, and the
  stored expense is this: its status is approved; date, employee, category, amount,
  currency, creator, approver and time of approval are those of the body where the body
  has them and the old ones where it has not (so approver and time of approval stay
  unset when they were unset and the body has none); description, receipt, notes and
  rejection reason are those of the body, trimmed, or else the old ones; the id is the
  old one and the last modifier is the caller. The approve route refuses the same caller.
\<close>

theorem C10_update_sets_status:
  assumes "user_role usr = Employee"
    and "linkedEmployeeId usr = Some (ex_employeeId e)"
    and "findExpenseById i st = Some e"
    and "ex_status e \<in> {ExDraft, ExRejected}"
    and "ex_request_valid body" and "ex_update_valid body"
    and "xb_status body = Some ''approved''"
  shows "\<exists>e'. update_expense (Some usr) i body st =
                 (Inr e', st\<lparr>expenses := map (\<lambda>d. if ex_id d = i then e' else d) (expenses st)\<rparr>)
    \<and> findExpenseById i (snd (update_expense (Some usr) i body st)) = Some e'
    \<and> ex_id e' = ex_id e
    \<and> ex_status e' = ExApproved
    \<and> ex_date e' = (case xb_date body of Some d \<Rightarrow> d | None \<Rightarrow> ex_date e)
    \<and> ex_employeeId e'
         = (case xb_employeeId body of Some x \<Rightarrow> x | None \<Rightarrow> ex_employeeId e)
    \<and> category e' = (case xb_category body of Some c \<Rightarrow> c | None \<Rightarrow> category e)
    \<and> description e'
         = (case xb_description body of Some d \<Rightarrow> trim d | None \<Rightarrow> description e)
    \<and> amount e' = (case xb_amount body of Some a \<Rightarrow> a | None \<Rightarrow> amount e)
    \<and> currency e' = (case xb_currency body of Some c \<Rightarrow> c | None \<Rightarrow> currency e)
    \<and> receipt e' = (case xb_receipt body of Some r \<Rightarrow> Some (trim r) | None \<Rightarrow> receipt e)
    \<and> ex_notes e' = (case xb_notes body of Some n \<Rightarrow> Some (trim n) | None \<Rightarrow> ex_notes e)
    \<and> ex_createdBy e'
         = (case xb_createdBy body of Some c \<Rightarrow> c | None \<Rightarrow> ex_createdBy e)
    \<and> approvedBy e'
         = (case xb_approvedBy body of Some a \<Rightarrow> Some a | None \<Rightarrow> approvedBy e)
    \<and> approvedAt e'
         = (case xb_approvedAt body of Some a \<Rightarrow> Some a | None \<Rightarrow> approvedAt e)
    \<and> rejectionReason e'
         = (case xb_rejectionReason body of
              Some r \<Rightarrow> Some (trim r) | None \<Rightarrow> rejectionReason e)
    \<and> ex_lastModifiedBy e' = Some (user_id usr)
    \<and> approve_expense now (Some usr) i st = (Inl employee_refused, st)"
proof -
  let ?e = "ex_apply body (user_id usr) e"
  note u = update_expense_owner [OF assms(1-6)]
  have i: "ex_id e = i"
    using assms(3) by (rule findExpenseById_id)
  have f: "findExpenseById i (snd (update_expense (Some usr) i body st)) = Some ?e"
    unfolding u using find_replace [of ex_id i "expenses st" e ?e] assms(3) i
    by (simp add: findExpenseById_def ex_apply_def)
  have a: "approve_expense now (Some usr) i st = (Inl employee_refused, st)"
    by (simp add: approve_expense_def adminOrManager_employee [OF assms(1)])
  have c: "category ?e = (case xb_category body of Some c \<Rightarrow> c | None \<Rightarrow> category e)"
    using assms(5)
    by (auto simp: ex_apply_def assign_def ex_request_valid_def optionally_def trim_category
        split: option.splits)
  have s: "ex_status ?e = ExApproved"
    using assms(7) by (simp add: ex_apply_def ex_status_of_def assign_def)
  have rest: "ex_id ?e = ex_id e"
    "ex_date ?e = (case xb_date body of Some d \<Rightarrow> d | None \<Rightarrow> ex_date e)"
    "ex_employeeId ?e = (case xb_employeeId body of Some x \<Rightarrow> x | None \<Rightarrow> ex_employeeId e)"
    "description ?e = (case xb_description body of Some d \<Rightarrow> trim d | None \<Rightarrow> description e)"
    "amount ?e = (case xb_amount body of Some a \<Rightarrow> a | None \<Rightarrow> amount e)"
    "currency ?e = (case xb_currency body of Some c \<Rightarrow> c | None \<Rightarrow> currency e)"
    "receipt ?e = (case xb_receipt body of Some r \<Rightarrow> Some (trim r) | None \<Rightarrow> receipt e)"
    "ex_notes ?e = (case xb_notes body of Some n \<Rightarrow> Some (trim n) | None \<Rightarrow> ex_notes e)"
    "ex_createdBy ?e = (case xb_createdBy body of Some c \<Rightarrow> c | None \<Rightarrow> ex_createdBy e)"
    "approvedBy ?e = (case xb_approvedBy body of Some a \<Rightarrow> Some a | None \<Rightarrow> approvedBy e)"
    "approvedAt ?e = (case xb_approvedAt body of Some a \<Rightarrow> Some a | None \<Rightarrow> approvedAt e)"
    "rejectionReason ?e
       = (case xb_rejectionReason body of Some r \<Rightarrow> Some (trim r) | None \<Rightarrow> rejectionReason e)"
    "ex_lastModifiedBy ?e = Some (user_id usr)"
    by (simp_all add: ex_apply_def assign_def assign_opt_def split: option.splits)
  show ?thesis
    by (intro exI [of _ ?e] conjI u f a c s rest)
qed

theorem C10_update_sets_status_witness:
  "\<exists>e'. fst (update_expense (Some worker) 20
                (ex_no_fields\<lparr>xb_status := Some ''approved'',
                               xb_description := Some ''Team lunch '',
                               xb_amount := Some 30\<rparr>)
                (office TsDraft ExDraft)) = Inr e'
      \<and> ex_status e' = ExApproved \<and> description e' = ''Team lunch'' \<and> amount e' = 30
      \<and> category e' = ''meals'' \<and> approvedBy e' = None \<and> approvedAt e' = None
      \<and> ex_lastModifiedBy e' = Some 101"
proof -
  let ?body = "ex_no_fields\<lparr>xb_status := Some ''approved'',
                 xb_description := Some ''Team lunch '', xb_amount := Some 30\<rparr>"
  have a: "user_role worker = Employee"
    "linkedEmployeeId worker = Some (ex_employeeId (lunch ExDraft))"
    "findExpenseById 20 (office TsDraft ExDraft) = Some (lunch ExDraft)"
    "ex_status (lunch ExDraft) \<in> {ExDraft, ExRejected}"
    by (simp_all add: worker_def lunch_def findExpenseById_def office_def)
  have b: "ex_request_valid ?body" "ex_update_valid ?body"
    "xb_status ?body = Some ''approved''"
    by (simp_all add: ex_no_fields_def ex_request_valid_def ex_update_valid_def
          optionally_def ex_status_of_def trim_examples)
  from C10_update_sets_status [OF a b, where now = 0]
  obtain e' where "update_expense (Some worker) 20 ?body (office TsDraft ExDraft) =
      (Inr e', (office TsDraft ExDraft)
         \<lparr>expenses := map (\<lambda>d. if ex_id d = 20 then e' else d)
                          (expenses (office TsDraft ExDraft))\<rparr>)"
    and "ex_status e' = ExApproved"
    and "category e' = (case xb_category ?body of Some c \<Rightarrow> c | None \<Rightarrow> category (lunch ExDraft))"
    and "description e'
         = (case xb_description ?body of Some d \<Rightarrow> trim d | None \<Rightarrow> description (lunch ExDraft))"
    and "amount e' = (case xb_amount ?body of Some a \<Rightarrow> a | None \<Rightarrow> amount (lunch ExDraft))"
    and "approvedBy e'
         = (case xb_approvedBy ?body of Some a \<Rightarrow> Some a | None \<Rightarrow> approvedBy (lunch ExDraft))"
    and "approvedAt e'
         = (case xb_approvedAt ?body of Some a \<Rightarrow> Some a | None \<Rightarrow> approvedAt (lunch ExDraft))"
    and "ex_lastModifiedBy e' = Some (user_id worker)"
    by blast
  then show ?thesis
    by (intro exI [of _ e']) (simp add: ex_no_fields_def lunch_def worker_def trim_examples)
qed

section \<open>Creating and updating timesheets\<close>

text \<open>
  A timesheet that \<open>POST /api/timesheets\<close> stores has the hours that \<open>calculateHours\<close>
  computes from its times and break, whatever the body says about them.
\<close>

lemma create_timesheet_calculates:
  assumes "create_timesheet u body st = (Inr t, st')"
  shows "calculateHours t = Some t"
    and "timesheets st' = timesheets st @ [t]"
    and "ts_status t = TsDraft"
proof -
  have c: "calculateHours x = Some t \<Longrightarrow> calculateHours t = Some t" for x
    by (auto simp: calculateHours_def Let_def split: option.splits)
  from assms show "calculateHours t = Some t"
    by (auto simp: create_timesheet_def pre_save_def Let_def
        split: sum.splits option.splits if_splits dest: c)
  from assms show "timesheets st' = timesheets st @ [t]"
    by (auto simp: create_timesheet_def pre_save_def Let_def
        split: sum.splits option.splits if_splits)
  from assms show "ts_status t = TsDraft"
    by (auto simp: create_timesheet_def pre_save_def Let_def calculateHours_def
        split: sum.splits option.splits if_splits)
qed

text \<open>A second entry for the same employee and date is never created.\<close>

lemma create_timesheet_conflict:
  assumes "b_employeeId body = Some e" and "b_date body = Some d"
    and "x \<in> set (timesheets st)" and "ts_employeeId x = e" and "ts_date x = d"
  shows "\<exists>f. create_timesheet u body st = (Inl f, st)"
proof -
  have "find (\<lambda>t. ts_employeeId t = e \<and> ts_date t = d) (timesheets st) \<noteq> None"
    using assms(3-5) by (auto simp: find_None_iff)
  then show ?thesis
    using assms(1,2)
    by (auto simp: create_timesheet_def Let_def split: sum.splits option.splits)
qed

lemma create_timesheet_unique:
  assumes "unique_entries st"
  shows "unique_entries (snd (create_timesheet u body st))"
proof (cases "create_timesheet u body st")
  case (Pair r st')
  show ?thesis
  proof (cases r)
    case (Inl f)
    with Pair have "st' = st"
      by (auto simp: create_timesheet_def Let_def split: sum.splits option.splits if_splits)
    with Pair assms show ?thesis by simp
  next
    case (Inr t)
    with Pair have t: "timesheets st' = timesheets st @ [t]"
      by (simp add: create_timesheet_calculates(2))
    from Pair Inr have "\<forall>x \<in> set (timesheets st).
        \<not> (ts_employeeId x = ts_employeeId t \<and> ts_date x = ts_date t)"
      by (auto simp: create_timesheet_def pre_save_def Let_def calculateHours_def find_None_iff
          split: sum.splits option.splits if_splits)
    then have "(ts_employeeId t, ts_date t)
        \<notin> set (map (\<lambda>t. (ts_employeeId t, ts_date t)) (timesheets st))"
      by auto
    with assms t Pair show ?thesis
      by (simp add: unique_entries_def)
  qed
qed

text \<open>
  What \<open>PUT /api/timesheets/:id\<close> does for a caller who passes the ownership check
  (an admin, a manager, or the employee of the timesheet) with a body that passes the
  validators: it succeeds whatever the status of the timesheet is, and the stored hours
  are those of the body, or else the old ones, whatever the times and the break become.
\<close>

lemma update_timesheet_result:
  assumes "findTimesheetById i st = Some t"
    and "user_role usr \<in> {Admin, Manager}
         \<or> (user_role usr = Employee \<and> linkedEmployeeId usr = Some (ts_employeeId t))"
    and "ts_request_valid body" and "ts_update_valid body"
  shows "update_timesheet (Some usr) i body st =
           (Inr (ts_apply body (user_id usr) t),
            st\<lparr>timesheets := map (\<lambda>d. if ts_id d = i then ts_apply body (user_id usr) t else d)
                                  (timesheets st)\<rparr>)"
  using assms by (auto simp: update_timesheet_def allRoles_passes Let_def)

lemma ts_apply_hours:
  "totalHoursWorked (ts_apply body uid t) = assign (b_totalHoursWorked body) (totalHoursWorked t)"
  "otHours (ts_apply body uid t) = assign (b_otHours body) (otHours t)"
  by (simp_all add: ts_apply_def)

text \<open>
  C3. An update of the end time leaves the stored hours as they were: Alice's shift
  from 09:00 to 17:00 with 8 hours becomes a shift from 09:00 to 19:00 with 8 hours and
  no overtime, where \<open>calculateHours\<close> gives 10 hours and 2 of overtime. Hours sent in
  the body are stored as sent.
\<close>

theorem C3_update_keeps_hours:
  "fst (update_timesheet (Some admin) 10 (ts_no_fields\<lparr>b_endTime := Some ''19:00''\<rparr>)
          (office TsDraft ExDraft))
     = Inr ((day_shift TsDraft)\<lparr>endTime := ''19:00'', ts_lastModifiedBy := Some 100\<rparr>)
   \<and> timesheets (snd (update_timesheet (Some admin) 10
                        (ts_no_fields\<lparr>b_endTime := Some ''19:00''\<rparr>) (office TsDraft ExDraft)))
     = [(day_shift TsDraft)\<lparr>endTime := ''19:00'', ts_lastModifiedBy := Some 100\<rparr>, next_shift]
   \<and> totalHoursWorked ((day_shift TsDraft)\<lparr>endTime := ''19:00'',
                                            ts_lastModifiedBy := Some 100\<rparr>) = 8
   \<and> otHours ((day_shift TsDraft)\<lparr>endTime := ''19:00'', ts_lastModifiedBy := Some 100\<rparr>) = 0
   \<and> map_option (\<lambda>t. (totalHoursWorked t, otHours t))
        (calculateHours ((day_shift TsDraft)\<lparr>endTime := ''19:00'',
                                            ts_lastModifiedBy := Some 100\<rparr>)) = Some (10, 2)
   \<and> map_option (\<lambda>t. (totalHoursWorked t, otHours t))
        (case fst (update_timesheet (Some worker) 10
                     (ts_no_fields\<lparr>b_totalHoursWorked := Some 20, b_otHours := Some 12\<rparr>)
                     (office TsDraft ExDraft)) of
           Inl f \<Rightarrow> None | Inr t \<Rightarrow> Some t) = Some (20, 12)"
  by (simp add: update_timesheet_def allRoles_passes ts_no_fields_def optionally_def
        ts_request_valid_def findTimesheetById_def office_def day_shift_def next_shift_def shift_def admin_def
        worker_def ts_update_valid_def ts_apply_def assign_def Let_def
        calculateHours_def parseTime_def Number_def is_digit_def digit_val_def)

text \<open>
  C6, as stated, fails: the update route for timesheets has no check of the status.
  Alice, an employee, edits her own approved timesheet, and the update is stored.
\<close>

theorem C6_employee_edits_approved:
  "fst (update_timesheet (Some worker) 10 (ts_no_fields\<lparr>b_notes := Some ''late''\<rparr>)
          (office TsApproved ExApproved))
     = Inr ((day_shift TsApproved)\<lparr>ts_notes := Some ''late'', ts_lastModifiedBy := Some 101\<rparr>)
   \<and> timesheets (snd (update_timesheet (Some worker) 10
                        (ts_no_fields\<lparr>b_notes := Some ''late''\<rparr>) (office TsApproved ExApproved)))
     = [(day_shift TsApproved)\<lparr>ts_notes := Some ''late'', ts_lastModifiedBy := Some 101\<rparr>,
        next_shift]
   \<and> ts_status (day_shift TsApproved) = TsApproved
   \<and> user_role worker = Employee
   \<and> linkedEmployeeId worker = Some (ts_employeeId (day_shift TsApproved))"
  by (simp add: update_timesheet_def allRoles_passes ts_no_fields_def
        ts_request_valid_def optionally_def
        findTimesheetById_def office_def day_shift_def next_shift_def shift_def
        worker_def ts_update_valid_def ts_apply_def assign_def Let_def trim_def is_space_def)

text \<open>
  C6, amended. For a stored timesheet in any status and a body that passes the
  validators, the update succeeds for an admin, for a manager and for the employee of
  the timesheet: the entry is replaced in the store, it keeps its id, its status is
  that of the body or else the old one, its times are those of the body or else the old
  ones, its notes are those of the body, trimmed, or else the old ones, and its last
  modifier is the caller. An employee linked to another employee is refused with 403.
  Ownership is the only restriction on an employee.
\<close>

theorem C6_edit_any_status:
  assumes "findTimesheetById i st = Some t"
    and "ts_request_valid body" and "ts_update_valid body"
  shows "(user_role usr \<in> {Admin, Manager}
            \<or> (user_role usr = Employee \<and> linkedEmployeeId usr = Some (ts_employeeId t))
          \<longrightarrow> (\<exists>t'. update_timesheet (Some usr) i body st =
                        (Inr t', st\<lparr>timesheets := map (\<lambda>d. if ts_id d = i then t' else d)
                                                        (timesheets st)\<rparr>)
                 \<and> ts_id t' = i
                 \<and> Some (ts_status t')
                     = (case b_status body of None \<Rightarrow> Some (ts_status t)
                                             | Some s \<Rightarrow> ts_status_of s)
                 \<and> startTime t' = (case b_startTime body of None \<Rightarrow> startTime t | Some x \<Rightarrow> x)
                 \<and> endTime t' = (case b_endTime body of None \<Rightarrow> endTime t | Some x \<Rightarrow> x)
                 \<and> ts_notes t'
                     = (case b_notes body of None \<Rightarrow> ts_notes t | Some n \<Rightarrow> Some (trim n))
                 \<and> ts_lastModifiedBy t' = Some (user_id usr)))
       \<and> (user_role usr = Employee
            \<and> (\<exists>l. linkedEmployeeId usr = Some l \<and> l \<noteq> ts_employeeId t)
          \<longrightarrow> update_timesheet (Some usr) i body st =
                (Inl (Status 403 ''You can only update your own timesheets''), st))"
proof (intro conjI impI)
  assume o: "user_role usr \<in> {Admin, Manager}
    \<or> (user_role usr = Employee \<and> linkedEmployeeId usr = Some (ts_employeeId t))"
  let ?t = "ts_apply body (user_id usr) t"
  note u = update_timesheet_result [OF assms(1) o assms(2,3)]
  have i: "ts_id ?t = i"
    using findTimesheetById_id [OF assms(1)] by (simp add: ts_apply_def)
  have s: "Some (ts_status ?t)
      = (case b_status body of None \<Rightarrow> Some (ts_status t) | Some s \<Rightarrow> ts_status_of s)"
    using assms(3)
    by (auto simp: ts_apply_def ts_update_valid_def optionally_def assign_def
        split: option.splits)
  have rest: "startTime ?t = (case b_startTime body of None \<Rightarrow> startTime t | Some x \<Rightarrow> x)"
    "endTime ?t = (case b_endTime body of None \<Rightarrow> endTime t | Some x \<Rightarrow> x)"
    "ts_notes ?t = (case b_notes body of None \<Rightarrow> ts_notes t | Some n \<Rightarrow> Some (trim n))"
    "ts_lastModifiedBy ?t = Some (user_id usr)"
    by (simp_all add: ts_apply_def assign_def split: option.splits)
  show "\<exists>t'. update_timesheet (Some usr) i body st =
               (Inr t', st\<lparr>timesheets := map (\<lambda>d. if ts_id d = i then t' else d)
                                               (timesheets st)\<rparr>)
        \<and> ts_id t' = i
        \<and> Some (ts_status t')
            = (case b_status body of None \<Rightarrow> Some (ts_status t) | Some s \<Rightarrow> ts_status_of s)
        \<and> startTime t' = (case b_startTime body of None \<Rightarrow> startTime t | Some x \<Rightarrow> x)
        \<and> endTime t' = (case b_endTime body of None \<Rightarrow> endTime t | Some x \<Rightarrow> x)
        \<and> ts_notes t'
            = (case b_notes body of None \<Rightarrow> ts_notes t | Some n \<Rightarrow> Some (trim n))
        \<and> ts_lastModifiedBy t' = Some (user_id usr)"
    by (intro exI [of _ ?t] conjI u i s rest)
next
  assume "user_role usr = Employee
    \<and> (\<exists>l. linkedEmployeeId usr = Some l \<and> l \<noteq> ts_employeeId t)"
  then show "update_timesheet (Some usr) i body st =
      (Inl (Status 403 ''You can only update your own timesheets''), st)"
    using assms by (auto simp: update_timesheet_def allRoles_passes)
qed

theorem C6_edit_any_status_witness:
  "(\<exists>t'. fst (update_timesheet (Some worker) 10 (ts_no_fields\<lparr>b_notes := Some '' late ''\<rparr>)
                 (office TsSubmitted ExDraft)) = Inr t'
       \<and> ts_status t' = TsSubmitted \<and> ts_notes t' = Some ''late''
       \<and> endTime t' = ''17:00'' \<and> ts_lastModifiedBy t' = Some 101)
   \<and> (\<exists>t'. fst (update_timesheet (Some admin) 10 (ts_no_fields\<lparr>b_notes := Some '' late ''\<rparr>)
                   (office TsApproved ExDraft)) = Inr t'
       \<and> ts_status t' = TsApproved \<and> ts_notes t' = Some ''late''
       \<and> ts_lastModifiedBy t' = Some 100)
   \<and> update_timesheet (Some other_worker) 10 (ts_no_fields\<lparr>b_notes := Some '' late ''\<rparr>)
        (office TsSubmitted ExDraft)
     = (Inl (Status 403 ''You can only update your own timesheets''),
        office TsSubmitted ExDraft)"
proof -
  let ?body = "ts_no_fields\<lparr>b_notes := Some '' late ''\<rparr>"
  have f: "findTimesheetById 10 (office s ExDraft) = Some (day_shift s)" for s
    by (simp add: findTimesheetById_def office_def day_shift_def shift_def)
  have b: "ts_request_valid ?body" "ts_update_valid ?body"
    by (simp_all add: ts_no_fields_def ts_request_valid_def ts_update_valid_def
          optionally_def trim_def is_space_def)
  have n: "trim '' late '' = ''late''"
    by (simp add: trim_def is_space_def)
  have w: "user_role worker = Employee
      \<and> linkedEmployeeId worker = Some (ts_employeeId (day_shift TsSubmitted))"
    by (simp add: worker_def day_shift_def shift_def)
  have a: "user_role admin \<in> {Admin, Manager}"
    by (simp add: admin_def)
  have o: "user_role other_worker = Employee
      \<and> (\<exists>l. linkedEmployeeId other_worker = Some l
              \<and> l \<noteq> ts_employeeId (day_shift TsSubmitted))"
    by (simp add: other_worker_def day_shift_def shift_def)
  from C6_edit_any_status [OF f b, of worker TsSubmitted] w
  obtain t1 where "fst (update_timesheet (Some worker) 10 ?body (office TsSubmitted ExDraft))
      = Inr t1"
    and "Some (ts_status t1) = (case b_status ?body of
            None \<Rightarrow> Some (ts_status (day_shift TsSubmitted)) | Some s \<Rightarrow> ts_status_of s)"
    and "endTime t1 = (case b_endTime ?body of
            None \<Rightarrow> endTime (day_shift TsSubmitted) | Some x \<Rightarrow> x)"
    and "ts_notes t1 = (case b_notes ?body of
            None \<Rightarrow> ts_notes (day_shift TsSubmitted) | Some n \<Rightarrow> Some (trim n))"
    and "ts_lastModifiedBy t1 = Some (user_id worker)"
    by auto
  then have 1: "\<exists>t'. fst (update_timesheet (Some worker) 10 ?body (office TsSubmitted ExDraft))
        = Inr t'
      \<and> ts_status t' = TsSubmitted \<and> ts_notes t' = Some ''late''
      \<and> endTime t' = ''17:00'' \<and> ts_lastModifiedBy t' = Some 101"
    by (intro exI [of _ t1]) (simp add: ts_no_fields_def day_shift_def shift_def worker_def n)
  from C6_edit_any_status [OF f b, of admin TsApproved] a
  obtain t2 where "fst (update_timesheet (Some admin) 10 ?body (office TsApproved ExDraft))
      = Inr t2"
    and "Some (ts_status t2) = (case b_status ?body of
            None \<Rightarrow> Some (ts_status (day_shift TsApproved)) | Some s \<Rightarrow> ts_status_of s)"
    and "ts_notes t2 = (case b_notes ?body of
            None \<Rightarrow> ts_notes (day_shift TsApproved) | Some n \<Rightarrow> Some (trim n))"
    and "ts_lastModifiedBy t2 = Some (user_id admin)"
    by auto
  then have 2: "\<exists>t'. fst (update_timesheet (Some admin) 10 ?body (office TsApproved ExDraft))
        = Inr t'
      \<and> ts_status t' = TsApproved \<and> ts_notes t' = Some ''late''
      \<and> ts_lastModifiedBy t' = Some 100"
    by (intro exI [of _ t2]) (simp add: ts_no_fields_def day_shift_def shift_def admin_def n)
  from C6_edit_any_status [OF f b, of other_worker TsSubmitted] o
  have 3: "update_timesheet (Some other_worker) 10 ?body (office TsSubmitted ExDraft)
      = (Inl (Status 403 ''You can only update your own timesheets''),
         office TsSubmitted ExDraft)"
    by blast
  from 1 2 3 show ?thesis
    by blast
qed

text \<open>
  C7. Creation refuses a second entry for Alice on day 0, but the update route writes
  the date of the body without that check: moving her entry of the next day to day 0
  leaves two entries for the same employee and date.
\<close>

theorem C7_update_duplicates_entry:
  "create_timesheet (Some worker)
        (ts_no_fields\<lparr>b_date := Some 0, b_employeeId := Some 1,
                       b_startTime := Some ''18:00'', b_endTime := Some ''20:00''\<rparr>)
        (office TsDraft ExDraft)
     = (Inl (Status 400 ''Timesheet already exists for this date and employee''),
        office TsDraft ExDraft)
   \<and> unique_entries (office TsDraft ExDraft)
   \<and> (\<exists>t. fst (update_timesheet (Some worker) 11 (ts_no_fields\<lparr>b_date := Some 0\<rparr>)
                  (office TsDraft ExDraft)) = Inr t)
   \<and> map (\<lambda>t. (ts_id t, ts_employeeId t, ts_date t))
        (timesheets (snd (update_timesheet (Some worker) 11 (ts_no_fields\<lparr>b_date := Some 0\<rparr>)
                            (office TsDraft ExDraft))))
     = [(10, 1, 0), (11, 1, 0)]
   \<and> \<not> unique_entries (snd (update_timesheet (Some worker) 11
                               (ts_no_fields\<lparr>b_date := Some 0\<rparr>) (office TsDraft ExDraft)))"
  by (simp add: create_timesheet_def update_timesheet_def allRoles_passes ts_no_fields_def
        ts_request_valid_def optionally_def findTimesheetById_def findEmployeeById_def office_def day_shift_def
        next_shift_def shift_def worker_def alice_def bob_def ts_update_valid_def ts_apply_def
        assign_def Let_def unique_entries_def is_digit_def)

section \<open>Access of an employee to the records of another\<close>

lemma get_timesheet_other:
  assumes "user_role usr = Employee" and "linkedEmployeeId usr = Some l"
    and "findTimesheetById i st = Some t" and "ts_employeeId t \<noteq> l"
    and "findEmployeeById (ts_employeeId t) st \<noteq> None"
  shows "get_timesheet (Some usr) i st = Inl (Status 403 ''Access denied'')"
proof -
  from assms(5) obtain y where y: "findEmployeeById (ts_employeeId t) st = Some y"
    by blast
  then have "emp_id y \<noteq> l"
    using findEmployeeById_id [OF y] assms(4) by simp
  with y assms(1-3) show ?thesis
    by (simp add: get_timesheet_def allRoles_passes)
qed

lemma get_expense_other:
  assumes "user_role usr = Employee" and "linkedEmployeeId usr = Some l"
    and "findExpenseById i st = Some e" and "ex_employeeId e \<noteq> l"
    and "findEmployeeById (ex_employeeId e) st \<noteq> None"
  shows "get_expense (Some usr) i st = Inl (Status 403 ''Access denied'')"
proof -
  from assms(5) obtain y where y: "findEmployeeById (ex_employeeId e) st = Some y"
    by blast
  then have "emp_id y \<noteq> l"
    using findEmployeeById_id [OF y] assms(4) by simp
  with y assms(1-3) show ?thesis
    by (simp add: get_expense_def allRoles_passes)
qed

text \<open>
  C9, as the claim has it, fails: Bob, an employee, is refused Alice's timesheet with
  status 403, but for an id without a timesheet the answer is 404.
\<close>

theorem C9_existence_is_visible:
  "get_timesheet (Some other_worker) 10 (office TsDraft ExDraft)
     = Inl (Status 403 ''Access denied'')
   \<and> get_timesheet (Some other_worker) 999 (office TsDraft ExDraft)
     = Inl (Status 404 ''Timesheet not found'')
   \<and> get_timesheet (Some other_worker) 999 (office TsDraft ExDraft)
     \<noteq> get_timesheet (Some other_worker) 10 (office TsDraft ExDraft)"
  by (simp add: get_timesheet_def allRoles_passes findTimesheetById_def findEmployeeById_def
        office_def day_shift_def next_shift_def shift_def other_worker_def alice_def bob_def)

text \<open>
  C9, amended. Let the caller be an employee. For every stored timesheet or expense of
  a different employee: reading it is refused with status 403 when the document of the
  owning employee exists; updating it with a body that passes the request validators,
  submitting it and deleting it are refused with status 403, and the store stays as it
  is. The routes for admins and managers (deleting a timesheet, approving and rejecting an
  expense) answer 403 for every id. For an id without a record, reading answers 404.
\<close>

theorem C9_cross_employee_denied:
  assumes "user_role usr = Employee" and "linkedEmployeeId usr = Some l"
  shows "(\<forall>i t. findTimesheetById i st = Some t \<and> ts_employeeId t \<noteq> l \<longrightarrow>
            (findEmployeeById (ts_employeeId t) st \<noteq> None \<longrightarrow>
               get_timesheet (Some usr) i st = Inl (Status 403 ''Access denied''))
          \<and> (\<forall>body. ts_request_valid body \<longrightarrow>
                update_timesheet (Some usr) i body st =
                  (Inl (Status 403 ''You can only update your own timesheets''), st)))
    \<and> (\<forall>i. delete_timesheet (Some usr) i st =
              (Inl employee_refused, st))
    \<and> (\<forall>i e. findExpenseById i st = Some e \<and> ex_employeeId e \<noteq> l \<longrightarrow>
            (findEmployeeById (ex_employeeId e) st \<noteq> None \<longrightarrow>
               get_expense (Some usr) i st = Inl (Status 403 ''Access denied''))
          \<and> (\<forall>body. ex_request_valid body \<longrightarrow>
                update_expense (Some usr) i body st =
                  (Inl (Status 403 ''You can only update your own expenses''), st))
          \<and> submit_expense (Some usr) i st =
              (Inl (Status 403 ''You can only submit your own expenses''), st)
          \<and> delete_expense (Some usr) i st =
              (Inl (Status 403 ''You can only delete your own expenses''), st))
    \<and> (\<forall>i now reason.
          approve_expense now (Some usr) i st =
            (Inl employee_refused, st)
          \<and> reject_expense (Some usr) i reason st =
            (Inl employee_refused, st))
    \<and> (\<forall>i. findTimesheetById i st = None \<longrightarrow>
          get_timesheet (Some usr) i st = Inl (Status 404 ''Timesheet not found''))
    \<and> (\<forall>i. findExpenseById i st = None \<longrightarrow>
          get_expense (Some usr) i st = Inl (Status 404 ''Expense not found''))"
proof (intro conjI allI impI)
  fix i t
  assume "findTimesheetById i st = Some t \<and> ts_employeeId t \<noteq> l"
    and "findEmployeeById (ts_employeeId t) st \<noteq> None"
  then show "get_timesheet (Some usr) i st = Inl (Status 403 ''Access denied'')"
    using get_timesheet_other [OF assms] by blast
next
  fix i t body
  assume "findTimesheetById i st = Some t \<and> ts_employeeId t \<noteq> l" and "ts_request_valid body"
  then show "update_timesheet (Some usr) i body st =
      (Inl (Status 403 ''You can only update your own timesheets''), st)"
    using assms by (auto simp: update_timesheet_def allRoles_passes)
next
  fix i
  show "delete_timesheet (Some usr) i st =
      (Inl employee_refused, st)"
    by (simp add: delete_timesheet_def adminOrManager_employee [OF assms(1)])
next
  fix i e
  assume "findExpenseById i st = Some e \<and> ex_employeeId e \<noteq> l"
    and "findEmployeeById (ex_employeeId e) st \<noteq> None"
  then show "get_expense (Some usr) i st = Inl (Status 403 ''Access denied'')"
    using get_expense_other [OF assms] by blast
next
  fix i e body
  assume "findExpenseById i st = Some e \<and> ex_employeeId e \<noteq> l" and "ex_request_valid body"
  then show "update_expense (Some usr) i body st =
      (Inl (Status 403 ''You can only update your own expenses''), st)"
    using assms by (auto simp: update_expense_def allRoles_passes)
next
  fix i e
  assume "findExpenseById i st = Some e \<and> ex_employeeId e \<noteq> l"
  then show "submit_expense (Some usr) i st =
      (Inl (Status 403 ''You can only submit your own expenses''), st)"
    using assms by (auto simp: submit_expense_def allRoles_passes)
next
  fix i e
  assume "findExpenseById i st = Some e \<and> ex_employeeId e \<noteq> l"
  then show "delete_expense (Some usr) i st =
      (Inl (Status 403 ''You can only delete your own expenses''), st)"
    using assms by (auto simp: delete_expense_def allRoles_passes)
next
  fix i now reason
  show "approve_expense now (Some usr) i st =
      (Inl employee_refused, st)"
    by (simp add: approve_expense_def adminOrManager_employee [OF assms(1)])
  show "reject_expense (Some usr) i reason st =
      (Inl employee_refused, st)"
    by (simp add: reject_expense_def adminOrManager_employee [OF assms(1)])
next
  fix i
  assume "findTimesheetById i st = None"
  then show "get_timesheet (Some usr) i st = Inl (Status 404 ''Timesheet not found'')"
    by (simp add: get_timesheet_def allRoles_passes)
next
  fix i
  assume "findExpenseById i st = None"
  then show "get_expense (Some usr) i st = Inl (Status 404 ''Expense not found'')"
    by (simp add: get_expense_def allRoles_passes)
qed

theorem C9_cross_employee_denied_witness:
  "get_timesheet (Some other_worker) 10 (office TsDraft ExDraft)
     = Inl (Status 403 ''Access denied'')
   \<and> update_timesheet (Some other_worker) 10 (ts_no_fields\<lparr>b_notes := Some ''mine''\<rparr>)
       (office TsDraft ExDraft)
     = (Inl (Status 403 ''You can only update your own timesheets''), office TsDraft ExDraft)
   \<and> get_expense (Some other_worker) 20 (office TsDraft ExDraft)
     = Inl (Status 403 ''Access denied'')
   \<and> update_expense (Some other_worker) 20 (ex_no_fields\<lparr>xb_amount := Some 500\<rparr>)
       (office TsDraft ExDraft)
     = (Inl (Status 403 ''You can only update your own expenses''), office TsDraft ExDraft)
   \<and> delete_expense (Some other_worker) 20 (office TsDraft ExDraft)
     = (Inl (Status 403 ''You can only delete your own expenses''), office TsDraft ExDraft)
   \<and> get_expense (Some other_worker) 999 (office TsDraft ExDraft)
     = Inl (Status 404 ''Expense not found'')"
proof -
  let ?st = "office TsDraft ExDraft"
  have u: "user_role other_worker = Employee" "linkedEmployeeId other_worker = Some 2"
    by (simp_all add: other_worker_def)
  have t: "findTimesheetById 10 ?st = Some (day_shift TsDraft)
      \<and> ts_employeeId (day_shift TsDraft) \<noteq> 2"
    "findEmployeeById (ts_employeeId (day_shift TsDraft)) ?st \<noteq> None"
    "ts_request_valid (ts_no_fields\<lparr>b_notes := Some ''mine''\<rparr>)"
    by (simp_all add: findTimesheetById_def findEmployeeById_def office_def day_shift_def
          shift_def alice_def ts_request_valid_def ts_no_fields_def optionally_def)
  have e: "findExpenseById 20 ?st = Some (lunch ExDraft) \<and> ex_employeeId (lunch ExDraft) \<noteq> 2"
    "findEmployeeById (ex_employeeId (lunch ExDraft)) ?st \<noteq> None"
    "ex_request_valid (ex_no_fields\<lparr>xb_amount := Some 500\<rparr>)"
    "findExpenseById 999 ?st = None"
    by (simp_all add: findExpenseById_def findEmployeeById_def office_def lunch_def
          alice_def ex_request_valid_def ex_no_fields_def optionally_def)
  show ?thesis
    using C9_cross_employee_denied [OF u, of ?st] t e by blast
qed

section \<open>Monthly aggregation\<close>

lemma foldl_accumulate:
  "foldl accumulate (r, ot, v, h) tss =
     (r + sum_list (map (\<lambda>t. max 0 (totalHoursWorked t - otHours t)) tss),
      ot + sum_list (map otHours tss),
      v + sum_list (map totalHoursWorked (filter isVacationWork tss)),
      h + sum_list (map totalHoursWorked (filter isHolidayWork tss)))"
  by (induction tss arbitrary: r ot v h) (simp_all add: accumulate_def Let_def)

text \<open>What \<open>calculateMonthlySummary\<close> writes into a summary.\<close>

lemma calculateMonthlySummary_eq:
  "calculateMonthlySummary Date st ms e y m =
     (let tss = findMonthTimesheets Date (emp_id e) y m st;
          regular = sum_list (map (\<lambda>t. max 0 (totalHoursWorked t - otHours t)) tss);
          ot = sum_list (map otHours tss);
          vacation = sum_list (map totalHoursWorked (filter isVacationWork tss));
          holiday = sum_list (map totalHoursWorked (filter isHolidayWork tss))
      in ms\<lparr>totalRegularHours := regular, totalOTHours := ot,
            totalVacationHours := vacation, totalHolidayHours := holiday,
            regularPay := regular * payRate e, otPay := ot * otRate e,
            vacationPay := vacation * vacationPayRate e, holidayPay := holiday * payRate e,
            totalPayableAmount := regular * payRate e + ot * otRate e
               + vacation * vacationPayRate e + holiday * payRate e\<rparr>)"
  by (simp add: calculateMonthlySummary_def foldl_accumulate calculatePayableAmount_def Let_def)

lemma calculateMonthlySummary_fields:
  "sm_id (calculateMonthlySummary Date st ms e y m) = sm_id ms"
  "sm_key (calculateMonthlySummary Date st ms e y m) = sm_key ms"
  "sm_status (calculateMonthlySummary Date st ms e y m) = sm_status ms"
  "generatedBy (calculateMonthlySummary Date st ms e y m) = generatedBy ms"
  "finalizedAt (calculateMonthlySummary Date st ms e y m) = finalizedAt ms"
  by (simp_all add: calculateMonthlySummary_eq Let_def sm_key_def)

lemma calculateMonthlySummary_idem:
  "calculateMonthlySummary Date st (calculateMonthlySummary Date st ms e y m) e y m
     = calculateMonthlySummary Date st ms e y m"
  "calculateMonthlySummary Date st (ms\<lparr>generatedBy := uid\<rparr>) e y m
     = (calculateMonthlySummary Date st ms e y m)\<lparr>generatedBy := uid\<rparr>"
  by (simp_all add: calculateMonthlySummary_eq Let_def)

lemma calculateMonthlySummary_cong:
  "timesheets st' = timesheets st \<Longrightarrow>
   calculateMonthlySummary Date st' ms e y m = calculateMonthlySummary Date st ms e y m"
  by (simp add: calculateMonthlySummary_def findMonthTimesheets_def)

lemma sum_list_nonneg_on:
  "(\<And>x. x \<in> set xs \<Longrightarrow> 0 \<le> f x) \<Longrightarrow> (0::rat) \<le> sum_list (map f xs)"
  by (induction xs) simp_all

lemma calculateMonthlySummary_valid:
  assumes "\<forall>t \<in> set (timesheets st). 0 \<le> totalHoursWorked t \<and> 0 \<le> otHours t"
    and "rates_ok e"
    and "1 \<le> sm_month ms" "sm_month ms \<le> 12" "2020 \<le> sm_year ms" "sm_year ms \<le> 2030"
  shows "summary_valid ((calculateMonthlySummary Date st ms e y m)\<lparr>generatedBy := uid\<rparr>)"
proof -
  let ?tss = "findMonthTimesheets Date (emp_id e) y m st"
  have s: "set ?tss \<subseteq> set (timesheets st)"
    by (auto simp: findMonthTimesheets_def Let_def)
  have a: "0 \<le> sum_list (map (\<lambda>t. max 0 (totalHoursWorked t - otHours t)) ?tss)"
    by (rule sum_list_nonneg_on) simp
  have b: "0 \<le> sum_list (map otHours ?tss)"
    using assms(1) s by (intro sum_list_nonneg_on) auto
  have c: "0 \<le> sum_list (map totalHoursWorked (filter isVacationWork ?tss))"
    using assms(1) s by (intro sum_list_nonneg_on) auto
  have d: "0 \<le> sum_list (map totalHoursWorked (filter isHolidayWork ?tss))"
    using assms(1) s by (intro sum_list_nonneg_on) auto
  from a b c d assms(2) show ?thesis
    using assms(3-6)
    by (simp add: calculateMonthlySummary_eq Let_def summary_valid_def rates_ok_def)
qed
lemma findSummary_key:
  "findSummary e y m st = find (\<lambda>s. sm_key s = (e, y, m)) (summaries st)"
  by (simp add: findSummary_def sm_key_def)

lemma findSummary_Some:
  assumes "findSummary e y m st = Some s"
  shows "s \<in> set (summaries st)" and "sm_key s = (e, y, m)"
    and "sm_employeeId s = e" and "sm_year s = y" and "sm_month s = m"
  using assms find_Some_mem [of _ "summaries st" s] find_Some_pred [of _ "summaries st" s]
  by (auto simp: findSummary_key sm_key_def)

lemma summary_valid_generatedBy [simp]:
  "summary_valid (s\<lparr>generatedBy := uid\<rparr>) = summary_valid s"
  by (simp add: summary_valid_def)

text \<open>Saving a summary over the stored one with its id and key.\<close>

lemma save_summary_find:
  assumes "distinct (map sm_id (summaries st))"
    and "old \<in> set (summaries st)" and "sm_id new = sm_id old" and "sm_key new = sm_key old"
  shows "find (\<lambda>s. sm_key s = k) (summaries (save_summary new st))
         = (if sm_key old = k
            then map_option (\<lambda>d. if sm_id d = sm_id old then new else d)
                   (find (\<lambda>s. sm_key s = k) (summaries st))
            else find (\<lambda>s. sm_key s = k) (summaries st))"
proof -
  let ?f = "\<lambda>d. if sm_id d = sm_id new then new else d"
  have same: "sm_key (?f x) = sm_key x" if "x \<in> set (summaries st)" for x
    using distinct_map_eq [OF assms(1) that assms(2)] assms(3,4) by auto
  have f: "find (\<lambda>s. sm_key s = k) (map ?f (summaries st))
      = map_option ?f (find (\<lambda>s. sm_key s = k) (summaries st))"
    by (rule find_map_same) (simp add: same)
  show ?thesis
  proof (cases "sm_key old = k")
    case True
    with f show ?thesis
      by (simp add: save_summary_def assms(3))
  next
    case False
    have "map_option ?f (find (\<lambda>s. sm_key s = k) (summaries st))
        = find (\<lambda>s. sm_key s = k) (summaries st)"
    proof (cases "find (\<lambda>s. sm_key s = k) (summaries st)")
      case None
      then show ?thesis by simp
    next
      case (Some d)
      have "d \<in> set (summaries st)" "sm_key d = k"
        using find_Some_mem [OF Some] find_Some_pred [OF Some] by simp_all
      with False have "sm_id d \<noteq> sm_id old"
        using distinct_map_eq [OF assms(1) _ assms(2), of d] by auto
      with Some show ?thesis by (simp add: assms(3))
    qed
    with f False show ?thesis
      by (simp add: save_summary_def)
  qed
qed

lemma save_summary_ok:
  assumes "summaries_ok st"
    and "old \<in> set (summaries st)" and "sm_id new = sm_id old" and "sm_key new = sm_key old"
  shows "summaries_ok (save_summary new st)"
proof -
  let ?f = "\<lambda>d. if sm_id d = sm_id new then new else d"
  have d: "distinct (map sm_id (summaries st))"
    using assms(1) by (simp add: summaries_ok_def)
  have same: "sm_key (?f x) = sm_key x" if "x \<in> set (summaries st)" for x
    using distinct_map_eq [OF d that assms(2)] assms(3,4) by auto
  have "map sm_id (map ?f (summaries st)) = map sm_id (summaries st)"
    by simp
  moreover have "map sm_key (map ?f (summaries st)) = map sm_key (summaries st)"
    using same by simp
  moreover have "\<forall>s \<in> set (map ?f (summaries st)). sm_id s < next_id st"
    using assms(1,2,3) by (auto simp: summaries_ok_def)
  ultimately show ?thesis
    using assms(1) unfolding summaries_ok_def save_summary_def
    by (simp del: map_map)
qed
lemma insert_summary_find:
  "find (\<lambda>s. sm_key s = k) (summaries (insert_summary new st))
     = (case find (\<lambda>s. sm_key s = k) (summaries st) of
          Some x \<Rightarrow> Some x
        | None \<Rightarrow> if sm_key new = k then Some new else None)"
  by (simp add: insert_summary_def find_append_cases split: option.splits)

lemma insert_summary_ok:
  assumes "summaries_ok st" and "sm_id new = next_id st"
    and "find (\<lambda>s. sm_key s = sm_key new) (summaries st) = None"
  shows "summaries_ok (insert_summary new st)"
proof -
  have "sm_key new \<notin> sm_key ` set (summaries st)"
    using assms(3) by (auto simp: find_None_iff)
  moreover have "sm_id new \<notin> sm_id ` set (summaries st)"
    using assms(1,2) by (auto simp: summaries_ok_def)
  ultimately show ?thesis
    using assms(1,2) by (auto simp: summaries_ok_def insert_summary_def less_Suc_eq)
qed

lemma new_summary_fields:
  "sm_id (new_summary i e y m uid) = i"
  "sm_key (new_summary i e y m uid) = (e, y, m)"
  "sm_month (new_summary i e y m uid) = m"
  "sm_year (new_summary i e y m uid) = y"
  "sm_status (new_summary i e y m uid) = SmDraft"
  "generatedBy (new_summary i e y m uid) = uid"
  by (simp_all add: new_summary_def sm_key_def)

text \<open>With stored hours and rates that are not negative, the loop body succeeds.\<close>

lemma generate_one_result:
  assumes "\<forall>t \<in> set (timesheets st). 0 \<le> totalHoursWorked t \<and> 0 \<le> otHours t"
    and "rates_ok e" and "1 \<le> m" "m \<le> 12" "2020 \<le> y" "y \<le> 2030"
  shows "generate_one Date usr y m e st =
     (case findSummary (emp_id e) y m st of
        Some existing \<Rightarrow>
          (let ms = (calculateMonthlySummary Date st existing e y m)
                      \<lparr>generatedBy := user_id usr\<rparr>
           in Inr (ms, save_summary ms st))
      | None \<Rightarrow>
          (let ms = calculateMonthlySummary Date st
                      (new_summary (next_id st) (emp_id e) y m (user_id usr)) e y m
           in Inr (ms, insert_summary ms st)))"
proof (cases "findSummary (emp_id e) y m st")
  case None
  have "summary_valid ((calculateMonthlySummary Date st
      (new_summary (next_id st) (emp_id e) y m (user_id usr)) e y m)\<lparr>generatedBy := 0\<rparr>)"
    by (rule calculateMonthlySummary_valid [OF assms(1,2)])
       (simp_all add: new_summary_fields assms)
  with None show ?thesis
    by (simp add: generate_one_def Let_def)
next
  case (Some existing)
  have "summary_valid ((calculateMonthlySummary Date st existing e y m)
      \<lparr>generatedBy := user_id usr\<rparr>)"
    by (rule calculateMonthlySummary_valid [OF assms(1,2)])
       (simp_all add: findSummary_Some(4,5) [OF Some] assms)
  with Some show ?thesis
    by (simp add: generate_one_def Let_def)
qed

lemma generate_one_step:
  assumes "summaries_ok st"
    and "\<forall>t \<in> set (timesheets st). 0 \<le> totalHoursWorked t \<and> 0 \<le> otHours t"
    and "rates_ok e" and "1 \<le> m" "m \<le> 12" "2020 \<le> y" "y \<le> 2030"
  shows "\<exists>ms st'. generate_one Date usr y m e st = Inr (ms, st')
            \<and> timesheets st' = timesheets st \<and> employees st' = employees st
            \<and> expenses st' = expenses st
            \<and> summaries_ok st' \<and> next_id st \<le> next_id st'
            \<and> findSummary (emp_id e) y m st' = Some ms
            \<and> generated_for Date usr y m st e ms
            \<and> (\<forall>k. k \<noteq> (emp_id e, y, m) \<longrightarrow>
                  find (\<lambda>s. sm_key s = k) (summaries st')
                    = find (\<lambda>s. sm_key s = k) (summaries st))
            \<and> length (summaries st')
                = length (summaries st)
                  + (if findSummary (emp_id e) y m st = None then 1 else 0)"
proof (cases "findSummary (emp_id e) y m st")
  case None
  let ?ms = "calculateMonthlySummary Date st
               (new_summary (next_id st) (emp_id e) y m (user_id usr)) e y m"
  have g: "generate_one Date usr y m e st = Inr (?ms, insert_summary ?ms st)"
    using generate_one_result [OF assms(2-7), of Date usr] None by (simp add: Let_def)
  have k: "sm_key ?ms = (emp_id e, y, m)" and i: "sm_id ?ms = next_id st"
    by (simp_all add: calculateMonthlySummary_fields new_summary_fields)
  have n: "find (\<lambda>s. sm_key s = (emp_id e, y, m)) (summaries st) = None"
    using None by (simp add: findSummary_key)
  have "summaries_ok (insert_summary ?ms st)"
    by (rule insert_summary_ok [OF assms(1) i]) (simp add: k n)
  moreover have "findSummary (emp_id e) y m (insert_summary ?ms st) = Some ?ms"
    by (simp add: findSummary_key insert_summary_find n k)
  moreover have "generated_for Date usr y m st e ?ms"
    by (simp add: generated_for_def None i)
  moreover have "\<forall>k. k \<noteq> (emp_id e, y, m) \<longrightarrow>
      find (\<lambda>s. sm_key s = k) (summaries (insert_summary ?ms st))
        = find (\<lambda>s. sm_key s = k) (summaries st)"
    by (auto simp: insert_summary_find k split: option.splits)
  ultimately show ?thesis
    using g None by (simp add: insert_summary_def)
next
  case (Some existing)
  let ?ms = "(calculateMonthlySummary Date st existing e y m)\<lparr>generatedBy := user_id usr\<rparr>"
  have g: "generate_one Date usr y m e st = Inr (?ms, save_summary ?ms st)"
    using generate_one_result [OF assms(2-7), of Date usr] Some by (simp add: Let_def)
  note ex = findSummary_Some [OF Some]
  have k: "sm_key ?ms = sm_key existing" and i: "sm_id ?ms = sm_id existing"
    using calculateMonthlySummary_fields(1,2) [of Date st existing e y m]
    by (simp_all add: sm_key_def)
  have d: "distinct (map sm_id (summaries st))"
    using assms(1) by (simp add: summaries_ok_def)
  note f = save_summary_find [OF d ex(1) i k]
  have "summaries_ok (save_summary ?ms st)"
    by (rule save_summary_ok [OF assms(1) ex(1) i k])
  moreover have "findSummary (emp_id e) y m (save_summary ?ms st) = Some ?ms"
    using Some by (simp add: findSummary_key f ex(2) i)
  moreover have "generated_for Date usr y m st e ?ms"
    by (simp add: generated_for_def Some)
  moreover have "\<forall>k. k \<noteq> (emp_id e, y, m) \<longrightarrow>
      find (\<lambda>s. sm_key s = k) (summaries (save_summary ?ms st))
        = find (\<lambda>s. sm_key s = k) (summaries st)"
    by (simp add: f ex(2))
  ultimately show ?thesis
    using g Some by (simp add: save_summary_def)
qed
lemma generated_for_transfer:
  assumes "generated_for Date usr y m st1 e s"
    and "timesheets st1 = timesheets st"
    and "findSummary (emp_id e) y m st1 = findSummary (emp_id e) y m st"
    and "next_id st \<le> next_id st1"
  shows "generated_for Date usr y m st e s"
  using assms calculateMonthlySummary_cong [OF assms(2), of Date]
  by (auto simp: generated_for_def split: option.splits)

text \<open>
  The loop over employees with distinct ids succeeds. It leaves every employee of the
  list a summary generated from the store at the start, and touches no other key.
\<close>

lemma generate_loop_result:
  assumes "summaries_ok st"
    and "\<forall>t \<in> set (timesheets st). 0 \<le> totalHoursWorked t \<and> 0 \<le> otHours t"
    and "\<forall>e \<in> set es. rates_ok e" and "distinct (map emp_id es)"
    and "1 \<le> m" "m \<le> 12" "2020 \<le> y" "y \<le> 2030"
  shows "\<exists>r st'. generate_loop Date usr y m es acc st = (Inr (acc @ r), st')
            \<and> map Some r = map (\<lambda>e. findSummary (emp_id e) y m st') es
            \<and> timesheets st' = timesheets st \<and> employees st' = employees st
            \<and> expenses st' = expenses st
            \<and> summaries_ok st' \<and> next_id st \<le> next_id st'
            \<and> (\<forall>e \<in> set es. \<exists>s. findSummary (emp_id e) y m st' = Some s
                                  \<and> generated_for Date usr y m st e s)
            \<and> (\<forall>k. k \<notin> (\<lambda>e. (emp_id e, y, m)) ` set es \<longrightarrow>
                  find (\<lambda>s. sm_key s = k) (summaries st')
                    = find (\<lambda>s. sm_key s = k) (summaries st))
            \<and> length (summaries st')
                = length (summaries st)
                  + length (filter (\<lambda>e. findSummary (emp_id e) y m st = None) es)"
  using assms(1-4)
proof (induction es arbitrary: acc st)
  case Nil
  then show ?case by simp
next
  case (Cons e es)
  have re: "rates_ok e" and res: "\<forall>e \<in> set es. rates_ok e"
    and de: "emp_id e \<notin> emp_id ` set es" and des: "distinct (map emp_id es)"
    using Cons.prems(3,4) by simp_all
  from generate_one_step [OF Cons.prems(1,2) re assms(5-8), of Date usr]
  obtain ms st1 where one: "generate_one Date usr y m e st = Inr (ms, st1)"
    and t1: "timesheets st1 = timesheets st" and e1: "employees st1 = employees st"
    and x1: "expenses st1 = expenses st"
    and ok1: "summaries_ok st1" and n1: "next_id st \<le> next_id st1"
    and f1: "findSummary (emp_id e) y m st1 = Some ms"
    and g1: "generated_for Date usr y m st e ms"
    and o1: "\<forall>k. k \<noteq> (emp_id e, y, m) \<longrightarrow>
               find (\<lambda>s. sm_key s = k) (summaries st1)
                 = find (\<lambda>s. sm_key s = k) (summaries st)"
    and l1: "length (summaries st1)
               = length (summaries st) + (if findSummary (emp_id e) y m st = None then 1 else 0)"
    by blast
  have h1: "\<forall>t \<in> set (timesheets st1). 0 \<le> totalHoursWorked t \<and> 0 \<le> otHours t"
    using Cons.prems(2) t1 by simp
  from Cons.IH [OF ok1 h1 res des, of "acc @ [ms]"]
  obtain r st' where loop: "generate_loop Date usr y m es (acc @ [ms]) st1
        = (Inr ((acc @ [ms]) @ r), st')"
    and r: "map Some r = map (\<lambda>e. findSummary (emp_id e) y m st') es"
    and t: "timesheets st' = timesheets st1" and e': "employees st' = employees st1"
    and x: "expenses st' = expenses st1"
    and ok: "summaries_ok st'" and n: "next_id st1 \<le> next_id st'"
    and g: "\<forall>e \<in> set es. \<exists>s. findSummary (emp_id e) y m st' = Some s
                                  \<and> generated_for Date usr y m st1 e s"
    and o: "\<forall>k. k \<notin> (\<lambda>e. (emp_id e, y, m)) ` set es \<longrightarrow>
              find (\<lambda>s. sm_key s = k) (summaries st')
                = find (\<lambda>s. sm_key s = k) (summaries st1)"
    and l: "length (summaries st')
              = length (summaries st1)
                + length (filter (\<lambda>e. findSummary (emp_id e) y m st1 = None) es)"
    by blast
  have same: "findSummary (emp_id e') y m st1 = findSummary (emp_id e') y m st"
    if "e' \<in> set es" for e'
  proof -
    have "emp_id e' \<noteq> emp_id e"
      using de that by (metis imageI)
    then show ?thesis
      using o1 by (simp add: findSummary_key)
  qed
  have fe: "findSummary (emp_id e) y m st' = Some ms"
  proof -
    have "(emp_id e, y, m) \<notin> (\<lambda>e. (emp_id e, y, m)) ` set es"
      using de by auto
    with o f1 show ?thesis
      by (simp add: findSummary_key)
  qed
  have "generate_loop Date usr y m (e # es) acc st = (Inr (acc @ ms # r), st')"
    using one loop by simp
  moreover have "map Some (ms # r) = map (\<lambda>e. findSummary (emp_id e) y m st') (e # es)"
    using r fe by simp
  moreover have "\<forall>e' \<in> set (e # es). \<exists>s. findSummary (emp_id e') y m st' = Some s
                                  \<and> generated_for Date usr y m st e' s"
  proof
    fix e'
    assume "e' \<in> set (e # es)"
    then consider "e' = e" | "e' \<in> set es"
      by auto
    then show "\<exists>s. findSummary (emp_id e') y m st' = Some s
                  \<and> generated_for Date usr y m st e' s"
    proof cases
      case 1
      with fe g1 show ?thesis by simp
    next
      case 2
      with g obtain s where s: "findSummary (emp_id e') y m st' = Some s"
        "generated_for Date usr y m st1 e' s"
        by blast
      from generated_for_transfer [OF s(2) t1 same [OF 2] n1] s(1) show ?thesis
        by simp
    qed
  qed
  moreover have "\<forall>k. k \<notin> (\<lambda>e. (emp_id e, y, m)) ` set (e # es) \<longrightarrow>
                  find (\<lambda>s. sm_key s = k) (summaries st')
                    = find (\<lambda>s. sm_key s = k) (summaries st)"
    using o o1 by simp
  moreover have "length (summaries st')
      = length (summaries st)
        + length (filter (\<lambda>e. findSummary (emp_id e) y m st = None) (e # es))"
  proof -
    have "filter (\<lambda>e. findSummary (emp_id e) y m st1 = None) es
        = filter (\<lambda>e. findSummary (emp_id e) y m st = None) es"
      by (rule filter_cong) (simp_all add: same)
    with l l1 show ?thesis by simp
  qed
  ultimately show ?case
    using t t1 e' e1 x x1 ok n n1 by simp
qed
lemma anonymous_eq:
  "anonymous a = anonymous b \<Longrightarrow> a = b\<lparr>generatedBy := generatedBy a\<rparr>"
  by (cases a, cases b) (simp add: anonymous_def)

lemma anonymous_generatedBy [simp]: "anonymous (s\<lparr>generatedBy := uid\<rparr>) = anonymous s"
  by (simp add: anonymous_def)

text \<open>A summary is up to date when recalculation does not change it.\<close>

lemma up_to_date_anonymous:
  assumes "calculateMonthlySummary Date st s e y m = s" and "anonymous s' = anonymous s"
  shows "calculateMonthlySummary Date st s' e y m = s'"
proof -
  have "s' = s\<lparr>generatedBy := generatedBy s'\<rparr>"
    using assms(2) by (rule anonymous_eq)
  then have "calculateMonthlySummary Date st s' e y m
      = (calculateMonthlySummary Date st s e y m)\<lparr>generatedBy := generatedBy s'\<rparr>"
    using calculateMonthlySummary_idem(2) [where ms = s and uid = "generatedBy s'"] by metis
  also have "\<dots> = s'"
    using assms(1) \<open>s' = s\<lparr>generatedBy := generatedBy s'\<rparr>\<close> by simp
  finally show ?thesis .
qed

lemma generated_for_up_to_date:
  assumes "generated_for Date usr y m st e s"
  shows "calculateMonthlySummary Date st s e y m = s"
proof (cases "findSummary (emp_id e) y m st")
  case None
  with assms have "s = calculateMonthlySummary Date st
      (new_summary (sm_id s) (emp_id e) y m (user_id usr)) e y m"
    by (simp add: generated_for_def)
  then show ?thesis
    using calculateMonthlySummary_idem(1) by metis
next
  case (Some existing)
  with assms have "s = (calculateMonthlySummary Date st existing e y m)
      \<lparr>generatedBy := user_id usr\<rparr>"
    by (simp add: generated_for_def)
  then show ?thesis
    by (simp add: calculateMonthlySummary_idem)
qed

text \<open>On a summary that is up to date, the loop body changes the generating user only.\<close>

lemma generate_one_again:
  assumes "summaries_ok st"
    and "\<forall>t \<in> set (timesheets st). 0 \<le> totalHoursWorked t \<and> 0 \<le> otHours t"
    and "rates_ok e" and "1 \<le> m" "m \<le> 12" "2020 \<le> y" "y \<le> 2030"
    and "findSummary (emp_id e) y m st = Some s"
    and "calculateMonthlySummary Date st s e y m = s"
  shows "\<exists>st'. generate_one Date usr y m e st = Inr (s\<lparr>generatedBy := user_id usr\<rparr>, st')
            \<and> map anonymous (summaries st') = map anonymous (summaries st)
            \<and> timesheets st' = timesheets st \<and> employees st' = employees st
            \<and> expenses st' = expenses st \<and> next_id st' = next_id st
            \<and> summaries_ok st'
            \<and> (\<forall>k. map_option anonymous (find (\<lambda>s. sm_key s = k) (summaries st'))
                    = map_option anonymous (find (\<lambda>s. sm_key s = k) (summaries st)))"
proof -
  let ?ms = "s\<lparr>generatedBy := user_id usr\<rparr>"
  let ?f = "\<lambda>d. if sm_id d = sm_id ?ms then ?ms else d"
  have g: "generate_one Date usr y m e st = Inr (?ms, save_summary ?ms st)"
    using generate_one_result [OF assms(2-7), of Date usr] assms(8,9) by (simp add: Let_def)
  note ex = findSummary_Some [OF assms(8)]
  have d: "distinct (map sm_id (summaries st))"
    using assms(1) by (simp add: summaries_ok_def)
  have i: "sm_id ?ms = sm_id s" and k: "sm_key ?ms = sm_key s"
    by (simp_all add: sm_key_def)
  have a: "anonymous (?f x) = anonymous x" if "x \<in> set (summaries st)" for x
    using distinct_map_eq [OF d that ex(1)] by auto
  have same: "sm_key (?f x) = sm_key x" if "x \<in> set (summaries st)" for x
    using distinct_map_eq [OF d that ex(1)] k by auto
  have "map anonymous (summaries (save_summary ?ms st)) = map anonymous (summaries st)"
    using a by (simp add: save_summary_def)
  moreover have "summaries_ok (save_summary ?ms st)"
    by (rule save_summary_ok [OF assms(1) ex(1) i k])
  moreover have "map_option anonymous (find (\<lambda>s. sm_key s = k) (summaries (save_summary ?ms st)))
      = map_option anonymous (find (\<lambda>s. sm_key s = k) (summaries st))" for k
  proof -
    have "find (\<lambda>s. sm_key s = k) (map ?f (summaries st))
        = map_option ?f (find (\<lambda>s. sm_key s = k) (summaries st))"
      by (rule find_map_same) (simp only: same)
    moreover have "map_option anonymous (map_option ?f (find (\<lambda>s. sm_key s = k) (summaries st)))
        = map_option anonymous (find (\<lambda>s. sm_key s = k) (summaries st))"
    proof (cases "find (\<lambda>s. sm_key s = k) (summaries st)")
      case None
      then show ?thesis by simp
    next
      case (Some x)
      with a [OF find_Some_mem [OF Some]] show ?thesis by simp
    qed
    ultimately show ?thesis
      by (simp add: save_summary_def)
  qed
  ultimately show ?thesis
    using g by (simp add: save_summary_def)
qed

lemma generate_loop_again:
  assumes "summaries_ok st"
    and "\<forall>t \<in> set (timesheets st). 0 \<le> totalHoursWorked t \<and> 0 \<le> otHours t"
    and "\<forall>e \<in> set es. rates_ok e"
    and "\<forall>e \<in> set es. \<exists>s. findSummary (emp_id e) y m st = Some s
                           \<and> calculateMonthlySummary Date st s e y m = s"
    and "1 \<le> m" "m \<le> 12" "2020 \<le> y" "y \<le> 2030"
  shows "\<exists>r st'. generate_loop Date usr y m es acc st = (Inr (acc @ r), st')
            \<and> map (\<lambda>s. Some (anonymous s)) r
                = map (\<lambda>e. map_option anonymous (findSummary (emp_id e) y m st)) es
            \<and> map anonymous (summaries st') = map anonymous (summaries st)
            \<and> timesheets st' = timesheets st \<and> employees st' = employees st
            \<and> expenses st' = expenses st \<and> next_id st' = next_id st"
  using assms(1-4)
proof (induction es arbitrary: acc st)
  case Nil
  then show ?case by simp
next
  case (Cons e es)
  from Cons.prems(4) obtain s where s: "findSummary (emp_id e) y m st = Some s"
    "calculateMonthlySummary Date st s e y m = s"
    by auto
  have re: "rates_ok e" and res: "\<forall>e \<in> set es. rates_ok e"
    using Cons.prems(3) by simp_all
  from generate_one_again [OF Cons.prems(1,2) re assms(5-8) s, of usr]
  obtain st1 where one: "generate_one Date usr y m e st
        = Inr (s\<lparr>generatedBy := user_id usr\<rparr>, st1)"
    and a1: "map anonymous (summaries st1) = map anonymous (summaries st)"
    and t1: "timesheets st1 = timesheets st" and e1: "employees st1 = employees st"
    and x1: "expenses st1 = expenses st" and n1: "next_id st1 = next_id st"
    and ok1: "summaries_ok st1"
    and f1: "\<forall>k. map_option anonymous (find (\<lambda>s. sm_key s = k) (summaries st1))
                = map_option anonymous (find (\<lambda>s. sm_key s = k) (summaries st))"
    by blast
  have fa: "map_option anonymous (findSummary i y m st1)
      = map_option anonymous (findSummary i y m st)" for i
    using f1 by (simp add: findSummary_key)
  have h1: "\<forall>t \<in> set (timesheets st1). 0 \<le> totalHoursWorked t \<and> 0 \<le> otHours t"
    using Cons.prems(2) t1 by simp
  have u1: "\<forall>e \<in> set es. \<exists>s. findSummary (emp_id e) y m st1 = Some s
                           \<and> calculateMonthlySummary Date st1 s e y m = s"
  proof
    fix e'
    assume "e' \<in> set es"
    with Cons.prems(4) obtain s' where s': "findSummary (emp_id e') y m st = Some s'"
      "calculateMonthlySummary Date st s' e' y m = s'"
      by auto
    with fa [of "emp_id e'"] obtain s'' where s'': "findSummary (emp_id e') y m st1 = Some s''"
      "anonymous s'' = anonymous s'"
      by (cases "findSummary (emp_id e') y m st1") auto
    have "calculateMonthlySummary Date st1 s'' e' y m = s''"
      using up_to_date_anonymous [OF s'(2) s''(2)] calculateMonthlySummary_cong [OF t1]
      by simp
    with s''(1) show "\<exists>s. findSummary (emp_id e') y m st1 = Some s
                           \<and> calculateMonthlySummary Date st1 s e' y m = s"
      by simp
  qed
  from Cons.IH [OF ok1 h1 res u1, of "acc @ [s\<lparr>generatedBy := user_id usr\<rparr>]"]
  obtain r st' where loop: "generate_loop Date usr y m es
        (acc @ [s\<lparr>generatedBy := user_id usr\<rparr>]) st1
        = (Inr ((acc @ [s\<lparr>generatedBy := user_id usr\<rparr>]) @ r), st')"
    and r: "map (\<lambda>s. Some (anonymous s)) r
              = map (\<lambda>e. map_option anonymous (findSummary (emp_id e) y m st1)) es"
    and a: "map anonymous (summaries st') = map anonymous (summaries st1)"
    and t: "timesheets st' = timesheets st1" and e': "employees st' = employees st1"
    and x: "expenses st' = expenses st1" and n: "next_id st' = next_id st1"
    by blast
  have "generate_loop Date usr y m (e # es) acc st
      = (Inr (acc @ s\<lparr>generatedBy := user_id usr\<rparr> # r), st')"
    using one loop by simp
  moreover have "map (\<lambda>s. Some (anonymous s)) (s\<lparr>generatedBy := user_id usr\<rparr> # r)
      = map (\<lambda>e. map_option anonymous (findSummary (emp_id e) y m st)) (e # es)"
    using r s(1) fa by simp
  ultimately show ?case
    using a a1 t t1 e' e1 x x1 n n1 by simp
qed

lemma generated_for_cases:
  assumes "generated_for Date usr y m st e s" and "summaries_ok st"
  shows "case findSummary (emp_id e) y m st of
           Some existing \<Rightarrow> sm_id s = sm_id existing \<and> sm_status s = sm_status existing
             \<and> finalizedAt s = finalizedAt existing
         | None \<Rightarrow> sm_status s = SmDraft \<and> sm_id s \<notin> sm_id ` set (summaries st)"
proof (cases "findSummary (emp_id e) y m st")
  case None
  with assms(1) have n: "next_id st \<le> sm_id s"
    and s: "s = calculateMonthlySummary Date st
                  (new_summary (sm_id s) (emp_id e) y m (user_id usr)) e y m"
    by (simp_all add: generated_for_def)
  have "sm_status s = SmDraft"
    using arg_cong [OF s, of sm_status]
    by (simp add: calculateMonthlySummary_fields new_summary_fields)
  moreover have "sm_id s \<notin> sm_id ` set (summaries st)"
    using n assms(2) by (auto simp: summaries_ok_def)
  ultimately show ?thesis
    using None by simp
next
  case (Some existing)
  with assms(1) have "s = (calculateMonthlySummary Date st existing e y m)
      \<lparr>generatedBy := user_id usr\<rparr>"
    by (simp add: generated_for_def)
  then show ?thesis
    using Some by (simp add: calculateMonthlySummary_fields)
qed

lemma generate_admin:
  assumes "user_role usr \<in> {Admin, Manager}"
    and "1 \<le> m" "m \<le> 12" "2020 \<le> y" "y \<le> 2030"
  shows "generate Date (Some usr) y m st =
           generate_loop Date usr y m (filter (\<lambda>e. emp_status e = Active) (employees st)) [] st"
  using assms by (simp add: generate_def adminOrManager_passes)

text \<open>
  For any \<open>Date\<close> constructor, the stored summary of an active employee has the sums over
  the timesheets that the query of \<open>calculateMonthlySummary\<close> returns.
\<close>

lemma monthly_totals_any_date:
  assumes "user_role usr \<in> {Admin, Manager}"
    and "1 \<le> m" "m \<le> 12" "2020 \<le> y" "y \<le> 2030"
    and "store_ok st"
    and "e \<in> set (employees st)" and "emp_status e = Active"
  shows "\<exists>r st' s. generate Date (Some usr) y m st = (Inr r, st')
           \<and> findSummary (emp_id e) y m st' = Some s \<and> s \<in> set r
           \<and> (let tss = findMonthTimesheets Date (emp_id e) y m st
              in totalRegularHours s
                   = sum_list (map (\<lambda>t. max 0 (totalHoursWorked t - otHours t)) tss)
               \<and> totalOTHours s = sum_list (map otHours tss)
               \<and> totalVacationHours s
                   = sum_list (map totalHoursWorked (filter isVacationWork tss))
               \<and> totalHolidayHours s
                   = sum_list (map totalHoursWorked (filter isHolidayWork tss))
               \<and> totalPayableAmount s
                   = totalRegularHours s * payRate e + totalOTHours s * otRate e
                     + totalVacationHours s * vacationPayRate e
                     + totalHolidayHours s * payRate e)"
proof -
  let ?es = "filter (\<lambda>e. emp_status e = Active) (employees st)"
  have ok: "summaries_ok st"
    and h: "\<forall>t \<in> set (timesheets st). 0 \<le> totalHoursWorked t \<and> 0 \<le> otHours t"
    and ra: "\<forall>e \<in> set ?es. rates_ok e" and d: "distinct (map emp_id ?es)"
    using assms(6) by (simp_all add: store_ok_def distinct_map_filter)
  from generate_loop_result [OF ok h ra d assms(2-5), of Date usr "[]"]
  obtain r st' where loop: "generate_loop Date usr y m ?es [] st = (Inr r, st')"
    and r: "map Some r = map (\<lambda>e. findSummary (emp_id e) y m st') ?es"
    and g: "\<forall>e \<in> set ?es. \<exists>s. findSummary (emp_id e) y m st' = Some s
                                  \<and> generated_for Date usr y m st e s"
    by auto
  have e: "e \<in> set ?es"
    using assms(7,8) by simp
  with g obtain s where s: "findSummary (emp_id e) y m st' = Some s"
    "generated_for Date usr y m st e s"
    by blast
  have "Some s \<in> set (map Some r)"
    unfolding r using e s(1) by force
  then have mem: "s \<in> set r"
    by auto
  note u = generated_for_up_to_date [OF s(2), unfolded calculateMonthlySummary_eq Let_def]
  have "totalRegularHours s = sum_list (map (\<lambda>t. max 0 (totalHoursWorked t - otHours t))
          (findMonthTimesheets Date (emp_id e) y m st))"
    using arg_cong [OF u, of totalRegularHours] by simp
  moreover have "totalOTHours s
      = sum_list (map otHours (findMonthTimesheets Date (emp_id e) y m st))"
    using arg_cong [OF u, of totalOTHours] by simp
  moreover have "totalVacationHours s = sum_list (map totalHoursWorked
      (filter isVacationWork (findMonthTimesheets Date (emp_id e) y m st)))"
    using arg_cong [OF u, of totalVacationHours] by simp
  moreover have "totalHolidayHours s = sum_list (map totalHoursWorked
      (filter isHolidayWork (findMonthTimesheets Date (emp_id e) y m st)))"
    using arg_cong [OF u, of totalHolidayHours] by simp
  moreover have "totalPayableAmount s
      = sum_list (map (\<lambda>t. max 0 (totalHoursWorked t - otHours t))
          (findMonthTimesheets Date (emp_id e) y m st)) * payRate e
        + sum_list (map otHours (findMonthTimesheets Date (emp_id e) y m st)) * otRate e
        + sum_list (map totalHoursWorked
            (filter isVacationWork (findMonthTimesheets Date (emp_id e) y m st)))
          * vacationPayRate e
        + sum_list (map totalHoursWorked
            (filter isHolidayWork (findMonthTimesheets Date (emp_id e) y m st))) * payRate e"
    using arg_cong [OF u, of totalPayableAmount] by simp
  ultimately show ?thesis
    using loop s(1) mem generate_admin [OF assms(1-5), of Date st]
    by (simp add: Let_def)
qed

lemma payroll_ok: "store_ok (payroll s)"
  by (simp add: store_ok_def summaries_ok_def payroll_def old_summary_def new_summary_def
        worked_def shift_def alice_def bob_def carol_def rates_ok_def sm_key_def)

subsection \<open>The month of the query\<close>

lemma civil_instant_examples:
  "civil_instant 0 1970 1 1 0 0 0 = 0"
  "civil_instant 0 2024 3 1 0 0 0 = 1709251200000"
  "civil_instant 0 2024 3 31 23 59 59 = 1711929599000"
  "civil_instant 330 2024 3 1 0 0 0 = 1709231400000"
  by (simp_all add: civil_instant_def days_from_civil_def Let_def)

lemma month_cases:
  "1 \<le> m \<Longrightarrow> m \<le> 12 \<Longrightarrow>
   m = 1 \<or> m = 2 \<or> m = 3 \<or> m = 4 \<or> m = 5 \<or> m = 6 \<or> m = 7 \<or> m = 8 \<or> m = 9 \<or> m = 10
   \<or> m = 11 \<or> m = (12::int)"
  by arith

lemma year_cases:
  "2020 \<le> y \<Longrightarrow> y \<le> 2030 \<Longrightarrow>
   y = 2020 \<or> y = 2021 \<or> y = 2022 \<or> y = 2023 \<or> y = 2024 \<or> y = 2025 \<or> y = 2026 \<or> y = 2027
   \<or> y = 2028 \<or> y = 2029 \<or> y = (2030::int)"
  by arith

text \<open>
  The two dates that \<open>calculateMonthlySummary\<close> builds are the local midnight that begins
  the month and 23:59:59 of its last day.
\<close>

lemma js_Date_month_window:
  assumes "1 \<le> m" "m \<le> 12" "2020 \<le> y" "y \<le> 2030"
  shows "js_Date tz y (m - 1) 1 0 0 0 = civil_instant tz y m 1 0 0 0"
    and "js_Date tz y m 0 23 59 59 = civil_instant tz y m (days_in_month y m) 23 59 59"
  using month_cases [OF assms(1,2)] year_cases [OF assms(3,4)]
  by (elim disjE; simp add: js_Date_def MakeDay_def MakeTime_def DayFromYear_def
        DayWithinYear_def DaysInYear_def civil_instant_def days_from_civil_def
        days_in_month_def leap_year_def Let_def)+

lemma findMonthTimesheets_js_Date:
  assumes "1 \<le> m" "m \<le> 12" "2020 \<le> y" "y \<le> 2030"
  shows "findMonthTimesheets (js_Date tz) i y m st =
           filter (\<lambda>t. ts_employeeId t = i
                        \<and> civil_instant tz y m 1 0 0 0 \<le> ts_date t
                        \<and> ts_date t \<le> civil_instant tz y m (days_in_month y m) 23 59 59)
                  (timesheets st)"
  by (simp add: findMonthTimesheets_def Let_def js_Date_month_window [OF assms])

text \<open>
  C2. Let an admin or manager generate the summaries of a valid month on a server at an
  offset of \<open>tz\<close> minutes from UTC, on a store whose stored hours and rates are not
  negative and whose ids are distinct. Generation succeeds. For every active employee
  the stored summary of the month, which is among those returned, is computed from the
  employee's timesheets dated from 00:00:00 of the first day of the month to 23:59:59 of
  its last day, local time, both included, and from no other: its regular hours are the
  sum of \<open>max(0, totalHoursWorked - otHours)\<close> over them, its overtime the sum of
  \<open>otHours\<close>, its vacation hours the sum of the full \<open>totalHoursWorked\<close> over those with
  \<open>isVacationWork\<close> (which count in the regular and overtime sums as well), likewise its
  holiday hours, and its payable amount is regular hours times pay rate plus overtime
  times overtime rate plus vacation hours times vacation rate plus holiday hours times
  pay rate.
\<close>

theorem C2_monthly_totals:
  assumes "user_role usr \<in> {Admin, Manager}"
    and "1 \<le> m" "m \<le> 12" "2020 \<le> y" "y \<le> 2030"
    and "store_ok st"
    and "e \<in> set (employees st)" and "emp_status e = Active"
  shows "\<exists>r st' s. generate (js_Date tz) (Some usr) y m st = (Inr r, st')
           \<and> findSummary (emp_id e) y m st' = Some s \<and> s \<in> set r
           \<and> (let tss = filter (\<lambda>t. ts_employeeId t = emp_id e
                               \<and> civil_instant tz y m 1 0 0 0 \<le> ts_date t
                               \<and> ts_date t \<le> civil_instant tz y m (days_in_month y m) 23 59 59)
                           (timesheets st)
              in totalRegularHours s
                   = sum_list (map (\<lambda>t. max 0 (totalHoursWorked t - otHours t)) tss)
               \<and> totalOTHours s = sum_list (map otHours tss)
               \<and> totalVacationHours s
                   = sum_list (map totalHoursWorked (filter isVacationWork tss))
               \<and> totalHolidayHours s
                   = sum_list (map totalHoursWorked (filter isHolidayWork tss))
               \<and> totalPayableAmount s
                   = totalRegularHours s * payRate e + totalOTHours s * otRate e
                     + totalVacationHours s * vacationPayRate e
                     + totalHolidayHours s * payRate e)"
  using monthly_totals_any_date [OF assms, of "js_Date tz"]
  unfolding findMonthTimesheets_js_Date [OF assms(2-5)] .

lemma payroll_march:
  "filter (\<lambda>t. ts_employeeId t = 1
               \<and> civil_instant 0 2024 3 1 0 0 0 \<le> ts_date t
               \<and> ts_date t \<le> civil_instant 0 2024 3 (days_in_month 2024 3) 23 59 59)
          (timesheets (payroll s))
     = [worked 11 1 1709251200000 8 0 False False,
        worked 12 1 1709596800000 10 2 True False,
        worked 13 1 1711929599000 8 0 False False]"
  by (simp add: civil_instant_examples days_in_month_def payroll_def worked_def)

theorem C2_monthly_totals_witness:
  "\<exists>r st' s. generate (js_Date 0) (Some admin) 2024 3 (payroll SmDraft) = (Inr r, st')
      \<and> findSummary 1 2024 3 st' = Some s \<and> s \<in> set r
      \<and> totalRegularHours s = 24 \<and> totalOTHours s = 2 \<and> totalVacationHours s = 10
      \<and> totalHolidayHours s = 0 \<and> totalPayableAmount s = 925"
proof -
  have a: "user_role admin \<in> {Admin, Manager}" "(1::int) \<le> 3" "(3::int) \<le> 12"
    "(2020::int) \<le> 2024" "(2024::int) \<le> 2030"
    by (simp_all add: admin_def)
  have e: "alice \<in> set (employees (payroll SmDraft))" "emp_status alice = Active"
    by (simp_all add: payroll_def alice_def)
  have i: "emp_id alice = 1"
    by (simp add: alice_def)
  from C2_monthly_totals [OF a payroll_ok e, of 0]
  obtain r st' s where g: "generate (js_Date 0) (Some admin) 2024 3 (payroll SmDraft) = (Inr r, st')"
    and f: "findSummary (emp_id alice) 2024 3 st' = Some s" "s \<in> set r"
    and t: "let tss = filter (\<lambda>t. ts_employeeId t = emp_id alice
                               \<and> civil_instant 0 2024 3 1 0 0 0 \<le> ts_date t
                               \<and> ts_date t \<le> civil_instant 0 2024 3 (days_in_month 2024 3) 23 59 59)
                           (timesheets (payroll SmDraft))
            in totalRegularHours s
                 = sum_list (map (\<lambda>t. max 0 (totalHoursWorked t - otHours t)) tss)
             \<and> totalOTHours s = sum_list (map otHours tss)
             \<and> totalVacationHours s
                 = sum_list (map totalHoursWorked (filter isVacationWork tss))
             \<and> totalHolidayHours s
                 = sum_list (map totalHoursWorked (filter isHolidayWork tss))
             \<and> totalPayableAmount s
                 = totalRegularHours s * payRate alice + totalOTHours s * otRate alice
                   + totalVacationHours s * vacationPayRate alice
                   + totalHolidayHours s * payRate alice"
    by blast
  from t have "totalRegularHours s = 24 \<and> totalOTHours s = 2 \<and> totalVacationHours s = 10
      \<and> totalHolidayHours s = 0 \<and> totalPayableAmount s = 925"
    unfolding i payroll_march by (simp add: worked_def alice_def)
  with g f show ?thesis
    unfolding i by blast
qed

lemma sm_key_anonymous [simp]: "sm_key (anonymous s) = sm_key s"
  by (simp add: anonymous_def sm_key_def)

text \<open>Two runs of the generation, one after the other, for a valid month.\<close>

lemma generate_twice:
  assumes "user_role u1 \<in> {Admin, Manager}" and "user_role u2 \<in> {Admin, Manager}"
    and "1 \<le> m" "m \<le> 12" "2020 \<le> y" "y \<le> 2030"
    and "store_ok st"
  shows "\<exists>r1 st1 r2 st2.
           generate Date (Some u1) y m st = (Inr r1, st1)
         \<and> generate Date (Some u2) y m st1 = (Inr r2, st2)
         \<and> timesheets st1 = timesheets st \<and> timesheets st2 = timesheets st
         \<and> map anonymous r2 = map anonymous r1
         \<and> map anonymous (summaries st2) = map anonymous (summaries st1)
         \<and> distinct (map sm_key (summaries st1)) \<and> distinct (map sm_key (summaries st2))
         \<and> (\<forall>e \<in> set (employees st). emp_status e = Active \<longrightarrow>
               (\<exists>s. findSummary (emp_id e) y m st1 = Some s
                  \<and> generated_for Date u1 y m st e s
                  \<and> (case findSummary (emp_id e) y m st of
                        Some existing \<Rightarrow>
                          sm_id s = sm_id existing \<and> sm_status s = sm_status existing
                      | None \<Rightarrow>
                          sm_status s = SmDraft \<and> sm_id s \<notin> sm_id ` set (summaries st))))
         \<and> length (summaries st1)
             = length (summaries st)
               + length (filter (\<lambda>e. emp_status e = Active
                                     \<and> findSummary (emp_id e) y m st = None) (employees st))"
proof -
  let ?es = "filter (\<lambda>e. emp_status e = Active) (employees st)"
  have ok: "summaries_ok st"
    and h: "\<forall>t \<in> set (timesheets st). 0 \<le> totalHoursWorked t \<and> 0 \<le> otHours t"
    and ra: "\<forall>e \<in> set ?es. rates_ok e" and d: "distinct (map emp_id ?es)"
    using assms(7) by (simp_all add: store_ok_def distinct_map_filter)
  from generate_loop_result [OF ok h ra d assms(3-6), of Date u1 "[]"]
  obtain r1 st1 where loop1: "generate_loop Date u1 y m ?es [] st = (Inr r1, st1)"
    and r1: "map Some r1 = map (\<lambda>e. findSummary (emp_id e) y m st1) ?es"
    and t1: "timesheets st1 = timesheets st" and e1: "employees st1 = employees st"
    and ok1: "summaries_ok st1"
    and g1: "\<forall>e \<in> set ?es. \<exists>s. findSummary (emp_id e) y m st1 = Some s
                                  \<and> generated_for Date u1 y m st e s"
    and l1: "length (summaries st1)
               = length (summaries st)
                 + length (filter (\<lambda>e. findSummary (emp_id e) y m st = None) ?es)"
    by auto
  have h1: "\<forall>t \<in> set (timesheets st1). 0 \<le> totalHoursWorked t \<and> 0 \<le> otHours t"
    using h t1 by simp
  have u1: "\<forall>e \<in> set ?es. \<exists>s. findSummary (emp_id e) y m st1 = Some s
                           \<and> calculateMonthlySummary Date st1 s e y m = s"
  proof
    fix e
    assume "e \<in> set ?es"
    with g1 obtain s where s: "findSummary (emp_id e) y m st1 = Some s"
      "generated_for Date u1 y m st e s"
      by blast
    from generated_for_up_to_date [OF s(2)] calculateMonthlySummary_cong [OF t1] s(1)
    show "\<exists>s. findSummary (emp_id e) y m st1 = Some s
             \<and> calculateMonthlySummary Date st1 s e y m = s"
      by simp
  qed
  from generate_loop_again [OF ok1 h1 ra u1 assms(3-6), of u2 "[]"]
  obtain r2 st2 where loop2: "generate_loop Date u2 y m ?es [] st1 = (Inr r2, st2)"
    and r2: "map (\<lambda>s. Some (anonymous s)) r2
               = map (\<lambda>e. map_option anonymous (findSummary (emp_id e) y m st1)) ?es"
    and a2: "map anonymous (summaries st2) = map anonymous (summaries st1)"
    and t2: "timesheets st2 = timesheets st1"
    by auto
  have "map (\<lambda>s. Some (anonymous s)) r1 = map (map_option anonymous) (map Some r1)"
    by simp
  also have "\<dots> = map (\<lambda>e. map_option anonymous (findSummary (emp_id e) y m st1)) ?es"
    unfolding r1 by simp
  finally have "map (\<lambda>s. Some (anonymous s)) r2 = map (\<lambda>s. Some (anonymous s)) r1"
    using r2 by (simp only:)
  then have "map the (map (\<lambda>s. Some (anonymous s)) r2)
      = map the (map (\<lambda>s. Some (anonymous s)) r1)"
    by (rule arg_cong)
  then have same: "map anonymous r2 = map anonymous r1"
    by (simp add: comp_def)
  have k1: "distinct (map sm_key (summaries st1))"
    using ok1 by (simp add: summaries_ok_def)
  have "map sm_key (summaries st2) = map sm_key (map anonymous (summaries st2))"
    by simp
  also have "\<dots> = map sm_key (summaries st1)"
    unfolding a2 by simp
  finally have k2: "distinct (map sm_key (summaries st2))"
    using k1 by simp
  have each: "\<forall>e \<in> set (employees st). emp_status e = Active \<longrightarrow>
               (\<exists>s. findSummary (emp_id e) y m st1 = Some s
                  \<and> generated_for Date u1 y m st e s
                  \<and> (case findSummary (emp_id e) y m st of
                        Some existing \<Rightarrow>
                          sm_id s = sm_id existing \<and> sm_status s = sm_status existing
                      | None \<Rightarrow>
                          sm_status s = SmDraft \<and> sm_id s \<notin> sm_id ` set (summaries st)))"
  proof (intro ballI impI)
    fix e
    assume "e \<in> set (employees st)" "emp_status e = Active"
    then have "e \<in> set ?es" by simp
    with g1 obtain s where s: "findSummary (emp_id e) y m st1 = Some s"
      "generated_for Date u1 y m st e s"
      by blast
    from generated_for_cases [OF s(2) ok] s
    show "\<exists>s. findSummary (emp_id e) y m st1 = Some s
            \<and> generated_for Date u1 y m st e s
            \<and> (case findSummary (emp_id e) y m st of
                  Some existing \<Rightarrow>
                    sm_id s = sm_id existing \<and> sm_status s = sm_status existing
                | None \<Rightarrow>
                    sm_status s = SmDraft \<and> sm_id s \<notin> sm_id ` set (summaries st))"
      by (auto split: option.splits)
  qed
  have len: "length (summaries st1)
             = length (summaries st)
               + length (filter (\<lambda>e. emp_status e = Active
                                     \<and> findSummary (emp_id e) y m st = None) (employees st))"
    using l1 by (simp add: conj_commute)
  have g1': "generate Date (Some u1) y m st = (Inr r1, st1)"
    using generate_admin [OF assms(1,3-6), of Date st] loop1 by simp
  have g2': "generate Date (Some u2) y m st1 = (Inr r2, st2)"
    using generate_admin [OF assms(2,3-6), of Date st1] loop2 e1 by simp
  show ?thesis
    using g1' g2' t1 t2 same a2 k1 k2 each len by simp
qed
lemma generate_invalid:
  assumes "\<not> (1 \<le> m \<and> m \<le> 12 \<and> 2020 \<le> y \<and> y \<le> 2030)"
  shows "\<exists>f. generate Date u y m st = (Inl f, st)"
  using assms by (auto simp: generate_def split: sum.splits)

text \<open>
  C4. Let admins or managers generate the summaries of a month twice, on a store whose
  stored hours and rates are not negative and whose ids and summary keys are distinct.
  For a valid month both runs succeed and leave the timesheets as they are. The second
  run returns the summaries of the first and leaves the stored summaries as the first run
  left them, the generating user apart: no document is added, and no two summaries
  share a key (employee, year, month). After the first run every active employee has a
  summary of the month: the one that existed, with its id and status and with the totals
  recalculated, or else a new document with status draft; the number of summaries has
  grown by the number of active employees that had none. For a month or year out of
  range, generation fails and changes nothing.
\<close>

theorem C4_generate_idempotent:
  assumes "user_role u1 \<in> {Admin, Manager}" and "user_role u2 \<in> {Admin, Manager}"
    and "store_ok st"
  shows "(1 \<le> m \<and> m \<le> 12 \<and> 2020 \<le> y \<and> y \<le> 2030 \<longrightarrow>
          (\<exists>r1 st1 r2 st2.
             generate Date (Some u1) y m st = (Inr r1, st1)
           \<and> generate Date (Some u2) y m st1 = (Inr r2, st2)
           \<and> timesheets st1 = timesheets st \<and> timesheets st2 = timesheets st
           \<and> map anonymous r2 = map anonymous r1
           \<and> map anonymous (summaries st2) = map anonymous (summaries st1)
           \<and> distinct (map sm_key (summaries st1)) \<and> distinct (map sm_key (summaries st2))
           \<and> (\<forall>e \<in> set (employees st). emp_status e = Active \<longrightarrow>
                 (\<exists>s. findSummary (emp_id e) y m st1 = Some s
                    \<and> generated_for Date u1 y m st e s
                    \<and> (case findSummary (emp_id e) y m st of
                          Some existing \<Rightarrow>
                            sm_id s = sm_id existing \<and> sm_status s = sm_status existing
                        | None \<Rightarrow>
                            sm_status s = SmDraft \<and> sm_id s \<notin> sm_id ` set (summaries st))))
           \<and> length (summaries st1)
               = length (summaries st)
                 + length (filter (\<lambda>e. emp_status e = Active
                                       \<and> findSummary (emp_id e) y m st = None)
                             (employees st))))
    \<and> (\<not> (1 \<le> m \<and> m \<le> 12 \<and> 2020 \<le> y \<and> y \<le> 2030) \<longrightarrow>
          (\<exists>f. generate Date (Some u1) y m st = (Inl f, st)))"
proof (intro conjI impI)
  assume "1 \<le> m \<and> m \<le> 12 \<and> 2020 \<le> y \<and> y \<le> 2030"
  then have v: "1 \<le> m" "m \<le> 12" "2020 \<le> y" "y \<le> 2030"
    by simp_all
  show "\<exists>r1 st1 r2 st2.
             generate Date (Some u1) y m st = (Inr r1, st1)
           \<and> generate Date (Some u2) y m st1 = (Inr r2, st2)
           \<and> timesheets st1 = timesheets st \<and> timesheets st2 = timesheets st
           \<and> map anonymous r2 = map anonymous r1
           \<and> map anonymous (summaries st2) = map anonymous (summaries st1)
           \<and> distinct (map sm_key (summaries st1)) \<and> distinct (map sm_key (summaries st2))
           \<and> (\<forall>e \<in> set (employees st). emp_status e = Active \<longrightarrow>
                 (\<exists>s. findSummary (emp_id e) y m st1 = Some s
                    \<and> generated_for Date u1 y m st e s
                    \<and> (case findSummary (emp_id e) y m st of
                          Some existing \<Rightarrow>
                            sm_id s = sm_id existing \<and> sm_status s = sm_status existing
                        | None \<Rightarrow>
                            sm_status s = SmDraft \<and> sm_id s \<notin> sm_id ` set (summaries st))))
           \<and> length (summaries st1)
               = length (summaries st)
                 + length (filter (\<lambda>e. emp_status e = Active
                                       \<and> findSummary (emp_id e) y m st = None)
                             (employees st))"
    by (rule generate_twice [OF assms(1,2) v assms(3)])
next
  assume "\<not> (1 \<le> m \<and> m \<le> 12 \<and> 2020 \<le> y \<and> y \<le> 2030)"
  then show "\<exists>f. generate Date (Some u1) y m st = (Inl f, st)"
    by (rule generate_invalid)
qed

theorem C4_generate_idempotent_witness:
  "\<exists>r1 st1 r2 st2.
      generate utc_date (Some admin) 2024 3 (payroll SmFinalized) = (Inr r1, st1)
    \<and> generate utc_date (Some manager) 2024 3 st1 = (Inr r2, st2)
    \<and> map anonymous r2 = map anonymous r1
    \<and> map anonymous (summaries st2) = map anonymous (summaries st1)
    \<and> distinct (map sm_key (summaries st2))
    \<and> length (summaries st1) = 2
    \<and> (\<exists>s. findSummary 2 2024 3 st1 = Some s \<and> sm_id s = 50 \<and> sm_status s = SmFinalized)
    \<and> (\<exists>s. findSummary 1 2024 3 st1 = Some s \<and> sm_status s = SmDraft)"
proof -
  let ?st = "payroll SmFinalized"
  have a: "user_role admin \<in> {Admin, Manager}" "user_role manager \<in> {Admin, Manager}"
    by (simp_all add: admin_def manager_def)
  have f: "findSummary (emp_id alice) 2024 3 ?st = None"
    "findSummary (emp_id bob) 2024 3 ?st = Some (old_summary SmFinalized)"
    "findSummary (emp_id carol) 2024 3 ?st = None"
    by (simp_all add: findSummary_def payroll_def old_summary_def new_summary_def
          alice_def bob_def carol_def)
  have l: "length (summaries ?st)
      + length (filter (\<lambda>e. emp_status e = Active \<and> findSummary (emp_id e) 2024 3 ?st = None)
                  (employees ?st)) = 2"
    using f by (simp add: payroll_def alice_def bob_def carol_def)
  have e: "alice \<in> set (employees ?st)" "emp_status alice = Active"
    "bob \<in> set (employees ?st)" "emp_status bob = Active"
    by (simp_all add: payroll_def alice_def bob_def)
  have i: "emp_id alice = 1" "emp_id bob = 2"
    "sm_id (old_summary SmFinalized) = 50" "sm_status (old_summary SmFinalized) = SmFinalized"
    by (simp_all add: alice_def bob_def old_summary_def new_summary_def)
  have v: "(1::int) \<le> 3 \<and> (3::int) \<le> 12 \<and> (2020::int) \<le> 2024 \<and> (2024::int) \<le> 2030"
    by simp
  from C4_generate_idempotent [OF a payroll_ok [of SmFinalized],
      where Date = utc_date and m = 3 and y = 2024] v
  obtain r1 st1 r2 st2 where
    g: "generate utc_date (Some admin) 2024 3 ?st = (Inr r1, st1)"
      "generate utc_date (Some manager) 2024 3 st1 = (Inr r2, st2)"
      "map anonymous r2 = map anonymous r1"
      "map anonymous (summaries st2) = map anonymous (summaries st1)"
      "distinct (map sm_key (summaries st2))"
    and each: "\<forall>e \<in> set (employees ?st). emp_status e = Active \<longrightarrow>
               (\<exists>s. findSummary (emp_id e) 2024 3 st1 = Some s
                  \<and> generated_for utc_date admin 2024 3 ?st e s
                  \<and> (case findSummary (emp_id e) 2024 3 ?st of
                        Some existing \<Rightarrow>
                          sm_id s = sm_id existing \<and> sm_status s = sm_status existing
                      | None \<Rightarrow>
                          sm_status s = SmDraft \<and> sm_id s \<notin> sm_id ` set (summaries ?st)))"
    and len: "length (summaries st1)
             = length (summaries ?st)
               + length (filter (\<lambda>e. emp_status e = Active
                                     \<and> findSummary (emp_id e) 2024 3 ?st = None)
                           (employees ?st))"
    by blast
  from each e(1,2) obtain sa where sa: "findSummary (emp_id alice) 2024 3 st1 = Some sa"
    "case findSummary (emp_id alice) 2024 3 ?st of
       Some existing \<Rightarrow> sm_id sa = sm_id existing \<and> sm_status sa = sm_status existing
     | None \<Rightarrow> sm_status sa = SmDraft \<and> sm_id sa \<notin> sm_id ` set (summaries ?st)"
    by blast
  from each e(3,4) obtain sb where sb: "findSummary (emp_id bob) 2024 3 st1 = Some sb"
    "case findSummary (emp_id bob) 2024 3 ?st of
       Some existing \<Rightarrow> sm_id sb = sm_id existing \<and> sm_status sb = sm_status existing
     | None \<Rightarrow> sm_status sb = SmDraft \<and> sm_id sb \<notin> sm_id ` set (summaries ?st)"
    by blast
  have "\<exists>s. findSummary 1 2024 3 st1 = Some s \<and> sm_status s = SmDraft"
    using sa f(1) i(1) by simp
  moreover
  have "\<exists>s. findSummary 2 2024 3 st1 = Some s \<and> sm_id s = 50 \<and> sm_status s = SmFinalized"
    using sb f(2) i(2-4) by simp
  ultimately show ?thesis
    using g len l by auto
qed

section \<open>Finalizing a summary\<close>

lemma keeps_finalized_nth:
  "keeps_finalized st st' \<longleftrightarrow>
     length (summaries st) \<le> length (summaries st')
     \<and> (\<forall>k < length (summaries st).
           sm_id (summaries st' ! k) = sm_id (summaries st ! k)
           \<and> (sm_status (summaries st ! k) = SmFinalized
                \<longrightarrow> sm_status (summaries st' ! k) = SmFinalized))"
  by (auto simp: keeps_finalized_def list_all2_conv_all_nth)

lemma keeps_finalized_refl: "keeps_finalized st st"
  by (simp add: keeps_finalized_nth)

lemma keeps_finalized_trans:
  "keeps_finalized st st1 \<Longrightarrow> keeps_finalized st1 st' \<Longrightarrow> keeps_finalized st st'"
  by (auto simp: keeps_finalized_nth)

lemma keeps_finalized_save:
  assumes "\<forall>d \<in> set (summaries st).
             sm_id d = sm_id new \<and> sm_status d = SmFinalized \<longrightarrow> sm_status new = SmFinalized"
  shows "keeps_finalized st (save_summary new st)"
  using assms by (auto simp: keeps_finalized_nth save_summary_def)

lemma keeps_finalized_insert: "keeps_finalized st (insert_summary new st)"
  by (simp add: keeps_finalized_nth insert_summary_def nth_append)

lemma generate_one_keeps:
  assumes "summaries_ok st" and "generate_one Date usr y m e st = Inr (ms, st')"
  shows "keeps_finalized st st'" and "summaries_ok st'"
proof -
  have d: "distinct (map sm_id (summaries st))"
    using assms(1) by (simp add: summaries_ok_def)
  show "keeps_finalized st st'"
  proof (cases "findSummary (emp_id e) y m st")
    case None
    with assms(2) show ?thesis
      by (auto simp: generate_one_def Let_def keeps_finalized_insert split: if_splits)
  next
    case (Some existing)
    let ?ms = "(calculateMonthlySummary Date st existing e y m)\<lparr>generatedBy := user_id usr\<rparr>"
    have st': "st' = save_summary ?ms st"
      using assms(2) Some by (auto simp: generate_one_def Let_def split: if_splits)
    have "\<forall>d \<in> set (summaries st).
        sm_id d = sm_id ?ms \<and> sm_status d = SmFinalized \<longrightarrow> sm_status ?ms = SmFinalized"
    proof (intro ballI impI)
      fix x
      assume x: "x \<in> set (summaries st)" "sm_id x = sm_id ?ms \<and> sm_status x = SmFinalized"
      then have "x = existing"
        using distinct_map_eq [OF d x(1) findSummary_Some(1) [OF Some]]
        by (simp add: calculateMonthlySummary_fields)
      with x(2) show "sm_status ?ms = SmFinalized"
        by (simp add: calculateMonthlySummary_fields)
    qed
    then show ?thesis
      unfolding st' by (rule keeps_finalized_save)
  qed
  show "summaries_ok st'"
  proof (cases "findSummary (emp_id e) y m st")
    case None
    let ?ms = "calculateMonthlySummary Date st
                 (new_summary (next_id st) (emp_id e) y m (user_id usr)) e y m"
    have st': "st' = insert_summary ?ms st"
      using assms(2) None by (auto simp: generate_one_def Let_def split: if_splits)
    show ?thesis
      unfolding st' using None
      by (intro insert_summary_ok [OF assms(1)])
         (simp_all add: calculateMonthlySummary_fields new_summary_fields findSummary_key)
  next
    case (Some existing)
    let ?ms = "(calculateMonthlySummary Date st existing e y m)\<lparr>generatedBy := user_id usr\<rparr>"
    have st': "st' = save_summary ?ms st"
      using assms(2) Some by (auto simp: generate_one_def Let_def split: if_splits)
    have k: "sm_key ?ms = sm_key existing" and i: "sm_id ?ms = sm_id existing"
      using calculateMonthlySummary_fields(1,2) [of Date st existing e y m]
      by (simp_all add: sm_key_def)
    show ?thesis
      unfolding st' by (rule save_summary_ok [OF assms(1) findSummary_Some(1) [OF Some] i k])
  qed
qed

lemma generate_loop_keeps:
  "summaries_ok st \<Longrightarrow> keeps_finalized st (snd (generate_loop Date usr y m es acc st))"
proof (induction es arbitrary: acc st)
  case Nil
  then show ?case by (simp add: keeps_finalized_refl)
next
  case (Cons e es)
  show ?case
  proof (cases "generate_one Date usr y m e st")
    case (Inl f)
    then show ?thesis by (simp add: keeps_finalized_refl)
  next
    case (Inr p)
    obtain ms st1 where p: "p = (ms, st1)" by (cases p)
    note one = generate_one_keeps [OF Cons.prems Inr [unfolded p]]
    from keeps_finalized_trans [OF one(1) Cons.IH [OF one(2)]] show ?thesis
      using Inr p by simp
  qed
qed

lemma generate_keeps:
  "summaries_ok st \<Longrightarrow> keeps_finalized st (snd (generate Date u y m st))"
  by (auto simp: generate_def generate_loop_keeps keeps_finalized_refl split: sum.splits)

lemma finalize_keeps: "keeps_finalized st (snd (finalize now u i st))"
  by (auto simp: finalize_def Let_def keeps_finalized_refl
      intro!: keeps_finalized_save split: sum.splits option.splits)

lemma other_routes_keep_summaries:
  "summaries (snd (create_timesheet u tb st)) = summaries st"
  "summaries (snd (update_timesheet u i tb st)) = summaries st"
  "summaries (snd (delete_timesheet u i st)) = summaries st"
  "summaries (snd (update_expense u i xb st)) = summaries st"
  "summaries (snd (submit_expense u i st)) = summaries st"
  "summaries (snd (approve_expense now u i st)) = summaries st"
  "summaries (snd (reject_expense u i reason st)) = summaries st"
  "summaries (snd (delete_expense u i st)) = summaries st"
  by (auto simp: create_timesheet_def update_timesheet_def delete_timesheet_def
      update_expense_def submit_expense_def approve_expense_def reject_expense_def
      delete_expense_def save_expense_def Let_def
      split: sum.splits option.splits if_splits)

text \<open>
  C8. For an admin or manager and a stored summary: finalizing a summary that is
  finalized fails with status 400 and leaves the store as it is; finalizing a draft
  succeeds, and the stored summary is then finalized and carries the time. No route
  leads back: through \<open>finalize\<close> and through \<open>generate\<close>, whoever calls them and with
  whatever arguments, a finalized summary stays in its place and stays finalized, and
  the routes for timesheets and expenses do not touch the summaries.
\<close>

theorem C8_finalize:
  assumes "user_role usr \<in> {Admin, Manager}"
    and "find (\<lambda>s. sm_id s = i) (summaries st) = Some s"
  shows "(sm_status s = SmFinalized \<longrightarrow>
            finalize now (Some usr) i st = (Inl (Status 400 ''Summary already finalized''), st))
    \<and> (sm_status s = SmDraft \<longrightarrow>
          (\<exists>s'. fst (finalize now (Some usr) i st) = Inr s'
             \<and> find (\<lambda>s. sm_id s = i) (summaries (snd (finalize now (Some usr) i st))) = Some s'
             \<and> s' = s\<lparr>sm_status := SmFinalized, finalizedAt := Some now\<rparr>))
    \<and> (\<forall>now' u' j. keeps_finalized st (snd (finalize now' u' j st)))
    \<and> (summaries_ok st \<longrightarrow>
          (\<forall>Date u' y m. keeps_finalized st (snd (generate Date u' y m st))))
    \<and> (\<forall>u' j tb xb now' reason.
          summaries (snd (create_timesheet u' tb st)) = summaries st
        \<and> summaries (snd (update_timesheet u' j tb st)) = summaries st
        \<and> summaries (snd (delete_timesheet u' j st)) = summaries st
        \<and> summaries (snd (update_expense u' j xb st)) = summaries st
        \<and> summaries (snd (submit_expense u' j st)) = summaries st
        \<and> summaries (snd (approve_expense now' u' j st)) = summaries st
        \<and> summaries (snd (reject_expense u' j reason st)) = summaries st
        \<and> summaries (snd (delete_expense u' j st)) = summaries st)"
proof (intro conjI impI allI)
  assume "sm_status s = SmFinalized"
  then show "finalize now (Some usr) i st
      = (Inl (Status 400 ''Summary already finalized''), st)"
    using assms by (simp add: finalize_def adminOrManager_passes)
next
  assume d: "sm_status s = SmDraft"
  let ?s = "s\<lparr>sm_status := SmFinalized, finalizedAt := Some now\<rparr>"
  have i: "sm_id s = i"
    using find_Some_pred [OF assms(2)] .
  have f: "finalize now (Some usr) i st = (Inr ?s, save_summary ?s st)"
    using assms d by (simp add: finalize_def adminOrManager_passes Let_def)
  have "find (\<lambda>s. sm_id s = i) (summaries (save_summary ?s st)) = Some ?s"
    using find_replace [of sm_id i "summaries st" s ?s] assms(2) i
    by (simp add: save_summary_def)
  with f show "\<exists>s'. fst (finalize now (Some usr) i st) = Inr s'
             \<and> find (\<lambda>s. sm_id s = i) (summaries (snd (finalize now (Some usr) i st))) = Some s'
             \<and> s' = s\<lparr>sm_status := SmFinalized, finalizedAt := Some now\<rparr>"
    by simp
next
  fix now' u' j
  show "keeps_finalized st (snd (finalize now' u' j st))"
    by (rule finalize_keeps)
next
  fix Date u' y m
  assume "summaries_ok st"
  then show "keeps_finalized st (snd (generate Date u' y m st))"
    by (rule generate_keeps)
qed (rule other_routes_keep_summaries)+

theorem C8_finalize_witness:
  "finalize 7000 (Some admin) 50 (payroll SmFinalized)
     = (Inl (Status 400 ''Summary already finalized''), payroll SmFinalized)
   \<and> fst (finalize 7000 (Some admin) 50 (payroll SmDraft))
     = Inr ((old_summary SmFinalized)\<lparr>finalizedAt := Some 7000\<rparr>)
   \<and> summaries (snd (finalize 7000 (Some admin) 50 (payroll SmDraft)))
     = [(old_summary SmFinalized)\<lparr>finalizedAt := Some 7000\<rparr>]
   \<and> keeps_finalized (payroll SmFinalized)
       (snd (generate utc_date (Some manager) 2024 3 (payroll SmFinalized)))"
proof -
  have u: "user_role admin \<in> {Admin, Manager}"
    by (simp add: admin_def)
  have f: "find (\<lambda>s. sm_id s = 50) (summaries (payroll x)) = Some (old_summary x)" for x
    by (simp add: payroll_def old_summary_def new_summary_def)
  have s: "sm_status (old_summary x) = x" for x
    by (simp add: old_summary_def)
  have o: "summaries_ok (payroll SmFinalized)"
    using payroll_ok [of SmFinalized] by (simp add: store_ok_def)
  have e: "(old_summary SmDraft)\<lparr>sm_status := SmFinalized, finalizedAt := Some 7000\<rparr>
      = (old_summary SmFinalized)\<lparr>finalizedAt := Some 7000\<rparr>"
    by (simp add: old_summary_def)
  have "summaries (snd (finalize 7000 (Some admin) 50 (payroll SmDraft)))
     = [(old_summary SmFinalized)\<lparr>finalizedAt := Some 7000\<rparr>]"
    by (simp add: finalize_def adminOrManager_passes [OF u] f s Let_def save_summary_def)
       (simp add: payroll_def old_summary_def new_summary_def)
  then show ?thesis
    using C8_finalize [OF u f [of SmFinalized], where now = 7000]
      C8_finalize [OF u f [of SmDraft], where now = 7000] s o e
    by auto
qed

end
